theory Spec2Isabelle
  imports Complex_Main "HOL-Library.Multiset"
begin

section \<open>Python values shared by the scripts\<close>

text \<open>A parsed JSON document (\<open>response.json()\<close>, and what \<open>json.dump\<close> writes).\<close>

datatype json =
    JNull
  | JBool bool
  | JNum real
  | JStr string
  | JArr "json list"
  | JObj "(string \<times> json) list"

text \<open>
  A raster image: its size and \<open>getpixel((x, y))\<close>. Colour modes and their conversion on
  paste are not modelled; a pixel is an RGB triple.
\<close>

type_synonym rgb = "nat \<times> nat \<times> nat"

record image =
  width :: nat
  height :: nat
  getpixel :: "nat \<Rightarrow> nat \<Rightarrow> rgb"

text \<open>
  What a file or a response body holds: bytes that decode to an image, a JSON document, or
  anything else.
\<close>

datatype file_content =
    ImageFile image
  | JsonFile json
  | OtherBytes string

text \<open>
  A \<open>requests.Response\<close>: \<open>status_code\<close>, \<open>.text\<close>, \<open>.json()\<close> (\<open>None\<close> when the body is not
  JSON and the call raises) and \<open>.content\<close>.
\<close>

record response =
  status_code :: int
  text_of :: string
  json_of :: "json option"
  content :: file_content

text \<open>
  The exceptions that the modelled code can raise. \<open>RequestException\<close> stands for the
  transport-level faults of the \<open>requests\<close> library (timeout, DNS, connection reset) and
  carries the exception text; \<open>HTTPError\<close> carries the \<open>response\<close> attribute, which
  \<open>raise_for_status\<close> sets and which may be absent otherwise; \<open>InvalidURL\<close> is what
  \<open>requests.get\<close> raises, before any request is sent, for a URL that is not a string, and
  carries that value; \<open>FileNotFoundError\<close> and \<open>UnidentifiedImageError\<close> carry the path.
\<close>

datatype exn =
    KeyError string
  | IndexError
  | TypeError
  | AttributeError
  | ZeroDivisionError
  | JSONDecodeError
  | RequestException string
  | HTTPError "response option"
  | InvalidURL json
  | FileNotFoundError string
  | UnidentifiedImageError string

text \<open>Decimal rendering of an integer, as \<open>str(n)\<close> and f-string interpolation do.\<close>

fun str_nat :: "nat \<Rightarrow> string" where
  "str_nat n =
     (if n < 10 then [''0123456789'' ! n]
      else str_nat (n div 10) @ [''0123456789'' ! (n mod 10)])"

declare str_nat.simps [simp del]

definition str_int :: "int \<Rightarrow> string" where
  "str_int i = (if i < 0 then CHR ''-'' # str_nat (nat (- i)) else str_nat (nat i))"

text \<open>\<open>v[key]\<close> for a string key: only a dict supports it, and a missing key raises.\<close>

fun subscript :: "json \<Rightarrow> string \<Rightarrow> exn + json" where
  "subscript (JObj kvs) k = (case map_of kvs k of None \<Rightarrow> Inl (KeyError k) | Some v \<Rightarrow> Inr v)"
| "subscript v k = Inl TypeError"

text \<open>\<open>v[0]\<close>\<close>

fun subscript0 :: "json \<Rightarrow> exn + json" where
  "subscript0 (JArr []) = Inl IndexError"
| "subscript0 (JArr (x # xs)) = Inr x"
| "subscript0 (JStr []) = Inl IndexError"
| "subscript0 (JStr (c # cs)) = Inr (JStr [c])"
| "subscript0 (JObj kvs) = Inl (KeyError ''0'')"
| "subscript0 v = Inl TypeError"

text \<open>\<open>v.get(key)\<close>: \<open>None\<close> for a missing key; only a dict has the method.\<close>

fun dict_get :: "json \<Rightarrow> string \<Rightarrow> exn + json" where
  "dict_get (JObj kvs) k = (case map_of kvs k of None \<Rightarrow> Inr JNull | Some v \<Rightarrow> Inr v)"
| "dict_get v k = Inl AttributeError"

section \<open>The world outside the process\<close>

text \<open>
  An HTTP call either raises (\<open>Fault\<close>) or returns a response (\<open>Answer\<close>); the first
  component is the wall-clock time the call takes, in seconds.
\<close>

datatype http_result =
    Fault real exn
  | Answer real response

fun elapsed :: "http_result \<Rightarrow> real" where
  "elapsed (Fault t e) = t"
| "elapsed (Answer t r) = t"

text \<open>What the process does to the outside, in order.\<close>

datatype event =
    Sleep nat
  | HttpPost string
  | HttpGet string

text \<open>
  The state of the process and of its disk: the clock read by \<open>time.time()\<close>, the files,
  the in-memory manifest \<open>results_summary\<close>, and the log of sleeps and HTTP calls made.
  The clock advances by the duration of every \<open>time.sleep\<close> and of every HTTP call;
  everything else takes no time. The state holds no directories: whether a file can be
  opened for writing is decided outside the process, see the records \<open>world\<close> and
  \<open>gen_world\<close> below.
\<close>

record request =
  folder :: string
  status :: string
  duration :: real
  note_text :: string
  tryon_id :: json
  garment_url :: string
  human_url :: string
  garment_id :: json
  human_id :: json

record summary =
  requests :: "request list"
  average_duration :: "real option"

record state =
  now :: real
  files :: "string \<Rightarrow> file_content option"
  results_summary :: summary
  trace :: "event list"

text \<open>A call returns a value, or raises; either way the state it leaves is kept.\<close>

datatype 'a outcome =
    Returned 'a state
  | Raised exn state

definition tick :: "real \<Rightarrow> event \<Rightarrow> state \<Rightarrow> state" where
  "tick t ev st = st\<lparr>now := now st + t, trace := trace st @ [ev]\<rparr>"

section \<open>Round-robin partition of the work list (\<open>main\<close>, alphabake-api-multi.py)\<close>

text \<open>
  The extended slice \<open>xs[i::n]\<close> for a start \<open>i \<ge> 0\<close> and a step \<open>n \<ge> 1\<close>: the elements at the
  positions \<open>i\<close>, \<open>i + n\<close>, \<open>i + 2n\<close>, ... below \<open>len(xs)\<close>. A step of 0 raises
  \<open>ValueError\<close> in Python; \<open>folder_chunks\<close> evaluates the slice only under
  \<open>for i in range(n_threads)\<close>, so never with step 0, and the equation gives \<open>[]\<close> there.
\<close>

function slice_from_step :: "'a list \<Rightarrow> nat \<Rightarrow> nat \<Rightarrow> 'a list" where
  "slice_from_step xs i n =
     (if i < length xs \<and> 0 < n then xs ! i # slice_from_step xs (i + n) n else [])"
  by pat_completeness auto
termination
  by (relation "measure (\<lambda>(xs, i, n). length xs - i)") auto

declare slice_from_step.simps [simp del]

text \<open>\<open>folder_chunks = [folders[i::n_threads] for i in range(n_threads)]\<close>\<close>

definition folder_chunks :: "'a list \<Rightarrow> nat \<Rightarrow> 'a list list" where
  "folder_chunks folders n_threads =
     map (\<lambda>i. slice_from_step folders i n_threads) [0..<n_threads]"

section \<open>API key rotation (\<open>get_next_client\<close>, banner generation scripts)\<close>

text \<open>
  \<open>_key_index\<close> is the module-level counter; the body runs under \<open>_key_lock\<close>, so calls are
  serialised and each is one atomic step on the counter. The list \<open>API_KEYS\<close> is a
  parameter; the client returned is identified with the key it is built from. An empty key
  list makes \<open>_key_index % len(API_KEYS)\<close> raise.
\<close>

definition get_next_client :: "string list \<Rightarrow> nat \<Rightarrow> exn + (string \<times> nat)" where
  "get_next_client API_KEYS key_index =
     (if length API_KEYS = 0 then Inl ZeroDivisionError
      else Inr (API_KEYS ! (key_index mod length API_KEYS), key_index + 1))"

text \<open>\<open>m\<close> successive calls, starting with the counter at \<open>key_index\<close>.\<close>

fun get_clients :: "string list \<Rightarrow> nat \<Rightarrow> nat \<Rightarrow> exn + (string list \<times> nat)" where
  "get_clients API_KEYS 0 key_index = Inr ([], key_index)"
| "get_clients API_KEYS (Suc m) key_index =
     (case get_next_client API_KEYS key_index of
        Inl e \<Rightarrow> Inl e
      | Inr (key, key_index') \<Rightarrow>
          (case get_clients API_KEYS m key_index' of
             Inl e \<Rightarrow> Inl e
           | Inr (keys, key_index'') \<Rightarrow> Inr (key # keys, key_index'')))"

section \<open>Image compositor (\<open>stack_three_images_and_save\<close>)\<close>

text \<open>\<open>Image.new('RGB', (w, h))\<close>: a black canvas.\<close>

definition Image_new :: "nat \<Rightarrow> nat \<Rightarrow> image" where
  "Image_new w h = \<lparr>width = w, height = h, getpixel = (\<lambda>x y. (0, 0, 0))\<rparr>"

text \<open>
  \<open>canvas.paste(im, (left, upper))\<close>: the pixels of \<open>im\<close> replace those of the canvas in the
  box whose upper left corner is \<open>(left, upper)\<close>, clipped to the canvas.
\<close>

definition paste :: "image \<Rightarrow> image \<Rightarrow> nat \<times> nat \<Rightarrow> image" where
  "paste canvas im box =
     canvas\<lparr>getpixel := (\<lambda>x y.
        if fst box \<le> x \<and> x < fst box + width im \<and> x < width canvas
           \<and> snd box \<le> y \<and> y < snd box + height im \<and> y < height canvas
        then getpixel im (x - fst box) (y - snd box)
        else getpixel canvas x y)\<rparr>"

text \<open>The canvas that \<open>stack_three_images_and_save\<close> builds before saving it.\<close>

definition stack_three_images :: "image \<Rightarrow> image \<Rightarrow> image \<Rightarrow> image" where
  "stack_three_images img1 img2 img3 =
     (let h = max (height img1) (max (height img2) (height img3));
          w = width img1 + width img2 + width img3;
          new_img = Image_new w h;
          new_img = paste new_img img1 (0, 0);
          new_img = paste new_img img2 (width img1, 0);
          new_img = paste new_img img3 (width img1 + width img2, 0)
      in new_img)"

text \<open>An image of one colour, for the examples.\<close>

definition flat_image :: "nat \<Rightarrow> nat \<Rightarrow> rgb \<Rightarrow> image" where
  "flat_image w h c = \<lparr>width = w, height = h, getpixel = (\<lambda>x y. c)\<rparr>"

section \<open>The multi-threaded try-on runner (alphabake-api-multi.py)\<close>

text \<open>
  Everything that is decided outside the repository, for one work item: the random number
  drawn for the cache-busting query parameter, the outcome of the job-creation POST, the
  outcome of the \<open>k\<close>-th status POST (counted from 0) and the outcome of a GET of a URL;
  what the operating system raises, if anything, when a directory is created
  (\<open>os.makedirs(path, exist_ok=True)\<close>) and when a file is opened for writing and written
  (a missing directory, a permission, a full disk); and the text that the interpreter
  gives with \<open>str()\<close> for a JSON number, list or dict and for an exception whose text this
  model does not spell out.
\<close>

record world =
  random_number :: int
  tryon_post :: http_result
  status_post :: "nat \<Rightarrow> http_result"
  http_get :: "string \<Rightarrow> http_result"
  makedirs_error :: "string \<Rightarrow> exn option"
  write_error :: "string \<Rightarrow> exn option"
  str_value :: "json \<Rightarrow> string"
  str_error :: "exn \<Rightarrow> string"

text \<open>
  \<open>str(v)\<close> of a parsed JSON value inside an f-string: a string is itself, \<open>None\<close> and the
  booleans have their names, and the text of a number, list or dict is the interpreter's.
\<close>

fun str_json :: "world \<Rightarrow> json \<Rightarrow> string" where
  "str_json w (JStr s) = s"
| "str_json w JNull = ''None''"
| "str_json w (JBool b) = (if b then ''True'' else ''False'')"
| "str_json w v = str_value w v"

text \<open>
  \<open>str(e)\<close>, as it is interpolated into the notes of a result record. A transport fault
  carries its text; \<open>str(KeyError(k))\<close> is \<open>repr(k)\<close>, the key between single quotes for the
  key literals of the source; the text of any other exception is the interpreter's.
\<close>

fun str_exn :: "world \<Rightarrow> exn \<Rightarrow> string" where
  "str_exn w (RequestException m) = m"
| "str_exn w (KeyError k) = [CHR 0x27] @ k @ [CHR 0x27]"
| "str_exn w e = str_error w e"

definition url :: string where
  "url = ''https://api.alphabake.io/api/v2/tryon/''"

definition fetch_url :: string where
  "fetch_url = ''https://api.alphabake.io/api/v2/tryon_status/''"

definition output_dir :: string where
  "output_dir = ''outputs/multi-threaded-test/''"

definition results_json_path :: string where
  "results_json_path = output_dir @ ''results.json''"

text \<open>
  \<open>os.path.join(a, b)\<close> on POSIX paths: an absolute \<open>b\<close> replaces \<open>a\<close>; otherwise \<open>b\<close> is
  appended, after a slash unless \<open>a\<close> is empty or ends with one.
\<close>

definition path_join :: "string \<Rightarrow> string \<Rightarrow> string" where
  "path_join a b =
     (if b \<noteq> [] \<and> hd b = CHR ''/'' then b
      else if a = [] \<or> last a = CHR ''/'' then a @ b
      else a @ ''/'' @ b)"

text \<open>
  \<open>os.path.dirname(p)\<close>: the part of \<open>p\<close> up to its last slash, without trailing slashes
  unless it consists of slashes only.
\<close>

definition dirname :: "string \<Rightarrow> string" where
  "dirname p =
     (let head = rev (dropWhile (\<lambda>c. c \<noteq> CHR ''/'') (rev p)) in
      if head \<noteq> [] \<and> \<not> list_all (\<lambda>c. c = CHR ''/'') head
      then rev (dropWhile (\<lambda>c. c = CHR ''/'') (rev head))
      else head)"

text \<open>\<open>os.path.join(output_dir, sub, f'{folder_name}.jpg')\<close>\<close>

definition out_path :: "string \<Rightarrow> string \<Rightarrow> string" where
  "out_path sub folder_name = path_join (path_join output_dir sub) (folder_name @ ''.jpg'')"

text \<open>\<open>os.makedirs(path, exist_ok=True)\<close>\<close>

definition makedirs :: "world \<Rightarrow> string \<Rightarrow> state \<Rightarrow> unit outcome" where
  "makedirs w path st =
     (case makedirs_error w path of Some e \<Rightarrow> Raised e st | None \<Rightarrow> Returned () st)"

text \<open>Sequencing: what follows a call runs only when the call returned.\<close>

definition and_then :: "'a outcome \<Rightarrow> ('a \<Rightarrow> state \<Rightarrow> 'b outcome) \<Rightarrow> 'b outcome" where
  "and_then m f = (case m of Raised e st \<Rightarrow> Raised e st | Returned x st \<Rightarrow> f x st)"

definition of_sum :: "exn + 'a \<Rightarrow> state \<Rightarrow> 'a outcome" where
  "of_sum r st = (case r of Inl e \<Rightarrow> Raised e st | Inr x \<Rightarrow> Returned x st)"

subsection \<open>\<open>download_image\<close>\<close>

text \<open>
  \<open>requests.get\<close> and \<open>open(download_path, 'wb')\<close> are outside any \<open>try\<close>, and the function
  creates no directory: what either raises leaves \<open>download_image\<close>. The function returns
  \<open>True\<close> after writing the body, and \<open>None\<close> for a status other than 200.
\<close>

definition download_image :: "world \<Rightarrow> string \<Rightarrow> string \<Rightarrow> state \<Rightarrow> bool option outcome" where
  "download_image w src download_path st =
     (case http_get w src of
        Fault t e \<Rightarrow> Raised e (tick t (HttpGet src) st)
      | Answer t response \<Rightarrow>
          (let st = tick t (HttpGet src) st in
           if status_code response = 200
           then (case write_error w download_path of
                   Some e \<Rightarrow> Raised e st
                 | None \<Rightarrow>
                     Returned (Some True)
                       (st\<lparr>files := (files st)(download_path \<mapsto> content response)\<rparr>))
           else Returned None st))"

subsection \<open>Saving the stacked image\<close>

text \<open>\<open>Image.open(path)\<close>\<close>

definition Image_open :: "state \<Rightarrow> string \<Rightarrow> exn + image" where
  "Image_open st path =
     (case files st path of
        None \<Rightarrow> Inl (FileNotFoundError path)
      | Some (ImageFile im) \<Rightarrow> Inr im
      | Some other \<Rightarrow> Inl (UnidentifiedImageError path))"

text \<open>
  The canvas is built by \<open>stack_three_images\<close> and saved with \<open>new_img.save\<close>, which
  opens the destination for writing. The loss of the JPEG encoding is not modelled: the
  file holds the canvas.
\<close>

definition stack_three_images_and_save ::
  "world \<Rightarrow> image \<Rightarrow> image \<Rightarrow> image \<Rightarrow> string \<Rightarrow> state \<Rightarrow> unit outcome" where
  "stack_three_images_and_save w img1 img2 img3 output_file_path st =
     (case write_error w output_file_path of
        Some e \<Rightarrow> Raised e st
      | None \<Rightarrow>
          Returned ()
            (st\<lparr>files := (files st)(output_file_path \<mapsto>
                   ImageFile (stack_three_images img1 img2 img3))\<rparr>))"

subsection \<open>The manifest\<close>

definition request_json :: "request \<Rightarrow> json" where
  "request_json r = JObj
     [(''folder'', JStr (folder r)), (''status'', JStr (status r)),
      (''duration'', JNum (duration r)), (''note'', JStr (note_text r)),
      (''tryon_id'', tryon_id r), (''garment_url'', JStr (garment_url r)),
      (''human_url'', JStr (human_url r)), (''garment_id'', garment_id r),
      (''human_id'', human_id r)]"

text \<open>The document that \<open>json.dump(results_summary, f, indent=2)\<close> writes.\<close>

definition summary_json :: "summary \<Rightarrow> json" where
  "summary_json s = JObj
     [(''requests'', JArr (map request_json (requests s))),
      (''average_duration'', (case average_duration s of None \<Rightarrow> JNull | Some a \<Rightarrow> JNum a))]"

text \<open>The module-level \<open>results_summary\<close> at import time.\<close>

definition initial_summary :: summary where
  "initial_summary = \<lparr>requests = [], average_duration = None\<rparr>"

text \<open>
  The block under \<open>with results_lock\<close>, which the source repeats at each of its three
  exits: append the record, then rewrite \<open>results.json\<close> from the whole manifest. The
  file lies in \<open>output_dir\<close>, which the script creates when it is loaded (lines 61 and
  62), and opening it for writing is taken to succeed.
\<close>

definition append_and_persist :: "request \<Rightarrow> state \<Rightarrow> state" where
  "append_and_persist r st =
     (let s = (results_summary st)\<lparr>requests := requests (results_summary st) @ [r]\<rparr>
      in st\<lparr>results_summary := s,
             files := (files st)(results_json_path \<mapsto> JsonFile (summary_json s))\<rparr>)"

text \<open>The final flush of \<open>main\<close>, after all threads are joined.\<close>

definition final_flush :: "state \<Rightarrow> state" where
  "final_flush st =
     (let durations = map duration (filter (\<lambda>r. status r = ''success'') (requests (results_summary st)));
          s = (results_summary st)\<lparr>average_duration :=
                (if durations \<noteq> [] then Some (sum_list durations / real (length durations))
                 else None)\<rparr>
      in st\<lparr>results_summary := s,
             files := (files st)(results_json_path \<mapsto> JsonFile (summary_json s))\<rparr>)"

subsection \<open>\<open>process_folder\<close>: building the payload\<close>

text \<open>
  Lines 110 to 121. A work item and the payload \<open>data\<close> are dicts from strings to
  strings. The second and third components are the locals \<open>garment_id\<close> and \<open>human_id\<close>
  (written \<open>garment_id0\<close>, \<open>human_id0\<close> and \<open>tryon_id0\<close> below, the plain names being the
  fields of a result record).
  The subscripts \<open>input_json[folder_name]['human_url']\<close>, \<open>['garment_url']\<close> and
  \<open>['garment_type']\<close> raise \<open>KeyError\<close> for a missing key.
\<close>

definition build_data ::
  "(string \<Rightarrow> string option) \<Rightarrow> int \<Rightarrow> exn + ((string \<Rightarrow> string option) \<times> json \<times> json)" where
  "build_data item rnd =
     (case (case item ''human_id'' of
              Some h \<Rightarrow> Inr ([''human_id'' \<mapsto> h], JStr h)
            | None \<Rightarrow>
                (case item ''human_url'' of
                   None \<Rightarrow> Inl (KeyError ''human_url'')
                 | Some u \<Rightarrow> Inr ([''human_url'' \<mapsto> u @ ''?v='' @ str_int rnd], JNull))) of
        Inl e \<Rightarrow> Inl e
      | Inr (data, human_id0) \<Rightarrow>
          (case (case item ''garment_id'' of
                   Some g \<Rightarrow> Inr (data(''garment_id'' \<mapsto> g), JStr g)
                 | None \<Rightarrow>
                     (case item ''garment_url'' of
                        None \<Rightarrow> Inl (KeyError ''garment_url'')
                      | Some u \<Rightarrow>
                          Inr (data(''garment_url'' \<mapsto> u @ ''?v='' @ str_int rnd), JNull))) of
             Inl e \<Rightarrow> Inl e
           | Inr (data, garment_id0) \<Rightarrow>
               (case item ''garment_type'' of
                  None \<Rightarrow> Inl (KeyError ''garment_type'')
                | Some t \<Rightarrow>
                    Inr (data(''garment_type'' \<mapsto> t, ''mode'' \<mapsto> ''fast''), garment_id0, human_id0))))"

text \<open>\<open>data.get(key, '')\<close>\<close>

definition get_or_empty :: "(string \<Rightarrow> string option) \<Rightarrow> string \<Rightarrow> string" where
  "get_or_empty data k = (case data k of None \<Rightarrow> [] | Some v \<Rightarrow> v)"

text \<open>
  The two early exits of the submission (lines 130 to 147 and 155 to 171): a record with
  status \<open>fail\<close> and the given note is appended, with \<open>data.get(..., '')\<close> for the URLs, and
  the function returns.
\<close>

definition submission_failed ::
  "string \<Rightarrow> real \<Rightarrow> string \<Rightarrow> (string \<Rightarrow> string option) \<Rightarrow> json \<Rightarrow> json \<Rightarrow> state \<Rightarrow> unit outcome" where
  "submission_failed folder_name start_time note_str data garment_id0 human_id0 st =
     Returned () (append_and_persist
       \<lparr>folder = folder_name, status = ''fail'', duration = now st - start_time, note_text = note_str,
        tryon_id = JNull, garment_url = get_or_empty data ''garment_url'',
        human_url = get_or_empty data ''human_url'', garment_id = garment_id0,
        human_id = human_id0\<rparr> st)"

subsection \<open>\<open>process_folder\<close>: the save step of a finished job\<close>

text \<open>
  The body of the \<open>try\<close> at lines 193 to 221, up to the assignments that cannot fail, in
  the order of the source. It returns the values of \<open>status_json.get('garment_id')\<close> and
  \<open>status_json.get('human_id')\<close>. The garment and the human image are downloaded from the
  URLs of the work item, when it has them; the three files are opened whether or not
  they were downloaded.
\<close>

definition or_null :: "exn + json \<Rightarrow> json" where
  "or_null r = (case r of Inl e \<Rightarrow> JNull | Inr v \<Rightarrow> v)"

text \<open>\<open>download_image(tryon_url, tryon_out)\<close> for the value found under \<open>s3_url\<close>.\<close>

definition download_result :: "world \<Rightarrow> json \<Rightarrow> string \<Rightarrow> state \<Rightarrow> bool option outcome" where
  "download_result w tryon_url download_path st =
     (case tryon_url of
        JStr src \<Rightarrow> download_image w src download_path st
      | other \<Rightarrow> Raised (InvalidURL other) st)"

text \<open>\<open>if key in input_json[folder_name]: download_image(input_json[folder_name][key], path)\<close>\<close>

definition download_input ::
  "world \<Rightarrow> (string \<Rightarrow> string option) \<Rightarrow> string \<Rightarrow> string \<Rightarrow> state \<Rightarrow> bool option outcome" where
  "download_input w item key download_path st =
     (case item key of
        None \<Rightarrow> Returned None st
      | Some src \<Rightarrow> download_image w src download_path st)"

definition save_result ::
  "world \<Rightarrow> (string \<Rightarrow> string option) \<Rightarrow> string \<Rightarrow> json \<Rightarrow> state \<Rightarrow> (json \<times> json) outcome" where
  "save_result w item folder_name status_json st =
     (let tryon_out = out_path ''tryon'' folder_name;
          stacked_out = out_path ''stacked'' folder_name;
          garment_out = out_path ''garment'' folder_name;
          human_out = out_path ''human'' folder_name
      in
      and_then (of_sum (subscript status_json ''s3_url'') st) (\<lambda>tryon_url st.
      and_then (makedirs w (dirname tryon_out) st) (\<lambda>u st.
      and_then (download_result w tryon_url tryon_out st) (\<lambda>ok st.
      and_then (makedirs w (dirname stacked_out) st) (\<lambda>u st.
      and_then (makedirs w (dirname garment_out) st) (\<lambda>u st.
      and_then (download_input w item ''garment_url'' garment_out st) (\<lambda>ok st.
      and_then (makedirs w (dirname human_out) st) (\<lambda>u st.
      and_then (download_input w item ''human_url'' human_out st) (\<lambda>ok st.
      and_then (of_sum (Image_open st tryon_out) st) (\<lambda>img1 st.
      and_then (of_sum (Image_open st garment_out) st) (\<lambda>img2 st.
      and_then (of_sum (Image_open st human_out) st) (\<lambda>img3 st.
      and_then (stack_three_images_and_save w img1 img2 img3 stacked_out st) (\<lambda>u st.
        Returned
          (or_null (dict_get status_json ''garment_id''),
           or_null (dict_get status_json ''human_id'')) st)))))))))))))"

subsection \<open>\<open>process_folder\<close>: the polling loop\<close>

text \<open>The locals that the loop reads and assigns.\<close>

record locals =
  cur_status :: string
  cur_note :: string
  cur_garment_id :: json
  cur_human_id :: json
  poll_count :: nat

definition wait_times :: "nat list" where
  "wait_times = [10, 5, 10, 5, 10, 20, 30, 30, 60]"

text \<open>
  The \<open>for wait in wait_times ... else\<close> loop, lines 175 to 241. The empty list is the
  \<open>else\<close> branch, taken when the loop ends without \<open>break\<close>; a \<open>break\<close> returns the locals
  without it. The status POST, \<open>status_response.json()\<close> and the subscripts
  \<open>status_json['message']\<close> and \<open>status_json['status']\<close> are outside any \<open>try\<close>.
\<close>

fun poll_loop ::
  "world \<Rightarrow> (string \<Rightarrow> string option) \<Rightarrow> string \<Rightarrow> nat list \<Rightarrow> locals \<Rightarrow> state \<Rightarrow> locals outcome" where
  "poll_loop w item folder_name [] v st =
     Returned (v\<lparr>cur_note := ''TIMEOUT waiting for tryon to complete'', cur_status := ''timeout''\<rparr>) st"
| "poll_loop w item folder_name (wait # rest) v st =
     (let st = tick (real wait) (Sleep wait) st;
          k = poll_count v;
          v = v\<lparr>poll_count := poll_count v + 1\<rparr>
      in case status_post w k of
           Fault t e \<Rightarrow> Raised e (tick t (HttpPost fetch_url) st)
         | Answer t status_response \<Rightarrow>
             (let st = tick t (HttpPost fetch_url) st in
              if status_code status_response = 200 then
                (case json_of status_response of
                   None \<Rightarrow> Raised JSONDecodeError st
                 | Some status_json \<Rightarrow>
                     (case subscript status_json ''message'' of
                        Inl e \<Rightarrow> Raised e st
                      | Inr message \<Rightarrow>
                          if message \<noteq> JStr ''success'' then
                            Returned (v\<lparr>cur_note := ''API message: '' @ str_json w message,
                                        cur_status := ''fail''\<rparr>) st
                          else
                            (case subscript status_json ''status'' of
                               Inl e \<Rightarrow> Raised e st
                             | Inr job_status \<Rightarrow>
                                 if job_status = JStr ''done'' then
                                   (case save_result w item folder_name status_json st of
                                      Returned ids st \<Rightarrow>
                                        Returned (v\<lparr>cur_status := ''success'', cur_note := [],
                                                    cur_garment_id := fst ids,
                                                    cur_human_id := snd ids\<rparr>) st
                                    | Raised e st \<Rightarrow>
                                        Returned (v\<lparr>cur_note := ''Exception during save: '' @ str_exn w e,
                                                    cur_status := ''fail''\<rparr>) st)
                                 else poll_loop w item folder_name rest v st)))
              else
                Returned (v\<lparr>cur_note := ''Status poll failed: '' @ str_int (status_code status_response)
                                         @ '', '' @ text_of status_response,
                            cur_status := ''fail''\<rparr>) st))"

subsection \<open>\<open>process_folder\<close>\<close>

text \<open>
  \<open>input_json\<close> maps the work-item keys to the work items. The progress bars and the
  per-thread \<open>done\<close>/\<open>fail\<close> counters only feed the console and are left out. In the last
  block the record is built with \<open>data['garment_url']\<close> and \<open>data['human_url']\<close>, in this
  order, before anything is appended.
\<close>

definition process_folder ::
  "(string \<Rightarrow> (string \<Rightarrow> string option) option) \<Rightarrow> world \<Rightarrow> string \<Rightarrow> state \<Rightarrow> unit outcome" where
  "process_folder input_json w folder_name st =
     (let start_time = now st in
      case input_json folder_name of
        None \<Rightarrow> Raised (KeyError folder_name) st
      | Some item \<Rightarrow>
          (case build_data item (random_number w) of
             Inl e \<Rightarrow> Raised e st
           | Inr (data, garment_id0, human_id0) \<Rightarrow>
               (case tryon_post w of
                  Fault t e \<Rightarrow>
                    submission_failed folder_name start_time (''Exception: '' @ str_exn w e)
                      data garment_id0 human_id0 (tick t (HttpPost url) st)
                | Answer t response \<Rightarrow>
                    (let st = tick t (HttpPost url) st in
                     if status_code response \<noteq> 200 then
                       submission_failed folder_name start_time
                         (''ERROR resp '' @ folder_name @ '', '' @ str_int (status_code response)
                            @ '', '' @ text_of response)
                         data garment_id0 human_id0 st
                     else
                       (case (case json_of response of
                                None \<Rightarrow> Inl JSONDecodeError
                              | Some json_response \<Rightarrow> dict_get json_response ''tryon_id'') of
                          Inl e \<Rightarrow>
                            submission_failed folder_name start_time (''Exception: '' @ str_exn w e)
                              data garment_id0 human_id0 st
                        | Inr tryon_id0 \<Rightarrow>
                            (case poll_loop w item folder_name wait_times
                                    \<lparr>cur_status = ''fail'', cur_note = [],
                                     cur_garment_id = garment_id0, cur_human_id = human_id0,
                                     poll_count = 0\<rparr> st of
                               Raised e st \<Rightarrow> Raised e st
                             | Returned v st \<Rightarrow>
                                 (case data ''garment_url'' of
                                    None \<Rightarrow> Raised (KeyError ''garment_url'') st
                                  | Some g \<Rightarrow>
                                      (case data ''human_url'' of
                                         None \<Rightarrow> Raised (KeyError ''human_url'') st
                                       | Some h \<Rightarrow>
                                           Returned () (append_and_persist
                                             \<lparr>folder = folder_name, status = cur_status v,
                                              duration = now st - start_time, note_text = cur_note v,
                                              tryon_id = tryon_id0, garment_url = g, human_url = h,
                                              garment_id = cur_garment_id v,
                                              human_id = cur_human_id v\<rparr> st)))))))))"

subsection \<open>\<open>worker\<close>\<close>

text \<open>
  One worker thread on its chunk; \<open>world\<close> gives the outside of each item. An exception
  that leaves \<open>process_folder\<close> ends the thread, and the rest of the chunk is not processed.
\<close>

fun worker ::
  "(string \<Rightarrow> (string \<Rightarrow> string option) option) \<Rightarrow> (string \<Rightarrow> world) \<Rightarrow> string list \<Rightarrow> state \<Rightarrow> unit outcome" where
  "worker input_json world [] st = Returned () st"
| "worker input_json world (folder_name # chunk) st =
     (case process_folder input_json (world folder_name) folder_name st of
        Raised e st \<Rightarrow> Raised e st
      | Returned u st \<Rightarrow> worker input_json world chunk st)"

text \<open>The state that a call leaves, whether it returned or raised.\<close>

fun final_state :: "'a outcome \<Rightarrow> state" where
  "final_state (Returned x st) = st"
| "final_state (Raised e st) = st"

text \<open>
  A status query that finds the job still running: HTTP 200, \<open>message\<close> equal to
  \<open>'success'\<close>, and a \<open>status\<close> other than \<open>'done'\<close>.
\<close>

definition still_running :: "http_result \<Rightarrow> bool" where
  "still_running a =
     (case a of
        Fault t e \<Rightarrow> False
      | Answer t r \<Rightarrow>
          status_code r = 200 \<and>
          (case json_of r of
             None \<Rightarrow> False
           | Some status_json \<Rightarrow>
               subscript status_json ''message'' = Inr (JStr ''success'') \<and>
               (case subscript status_json ''status'' of
                  Inl e \<Rightarrow> False
                | Inr s \<Rightarrow> s \<noteq> JStr ''done'')))"

text \<open>The events that are status queries.\<close>

definition is_poll :: "event \<Rightarrow> bool" where
  "is_poll ev = (ev = HttpPost fetch_url)"

text \<open>
  \<open>quiet st st'\<close>: from \<open>st\<close> to \<open>st'\<close> no status query was made and the manifest was left
  alone.
\<close>

definition quiet :: "state \<Rightarrow> state \<Rightarrow> bool" where
  "quiet st st' =
     (filter is_poll (trace st') = filter is_poll (trace st)
      \<and> results_summary st' = results_summary st)"

section \<open>Example inputs\<close>

text \<open>The state at process start: nothing on disk, the manifest empty, the clock at 0.\<close>

definition initial_state :: state where
  "initial_state =
     \<lparr>now = 0, files = (\<lambda>p. None), results_summary = initial_summary, trace = []\<rparr>"

text \<open>
  Two work items in the two forms that \<open>input_json\<close> shows: \<open>h40__g20\<close> with URLs, and
  \<open>h20__g4\<close> with direct identifiers.
\<close>

definition example_input_json :: "string \<Rightarrow> (string \<Rightarrow> string option) option" where
  "example_input_json =
     [''h40__g20'' \<mapsto>
        [''human_url'' \<mapsto> ''https://example.org/h40__g20/human.jpg'',
         ''garment_url'' \<mapsto> ''https://example.org/h40__g20/garment.jpg'',
         ''garment_type'' \<mapsto> ''full'', ''mode'' \<mapsto> ''fast''],
      ''h20__g4'' \<mapsto>
        [''human_id'' \<mapsto> ''096ee950-H727'', ''garment_id'' \<mapsto> ''cf17d39b-G327'',
         ''garment_type'' \<mapsto> ''full'', ''mode'' \<mapsto> ''fast'']]"

definition plain_response :: "int \<Rightarrow> string \<Rightarrow> response" where
  "plain_response code body =
     \<lparr>status_code = code, text_of = body, json_of = None, content = OtherBytes body\<rparr>"

definition json_response :: "int \<Rightarrow> json \<Rightarrow> response" where
  "json_response code j =
     \<lparr>status_code = code, text_of = ''{...}'', json_of = Some j, content = JsonFile j\<rparr>"

definition image_response :: "image \<Rightarrow> response" where
  "image_response im =
     \<lparr>status_code = 200, text_of = [], json_of = None, content = ImageFile im\<rparr>"

text \<open>
  A network that is down: every call raises after one second. Directories can be made
  and files written. The texts of the interpreter are not needed by the examples.
\<close>

definition world_offline :: world where
  "world_offline =
     \<lparr>random_number = 42,
      tryon_post = Fault 1 (RequestException ''Connection reset by peer''),
      status_post = (\<lambda>k. Fault 1 (RequestException ''Connection reset by peer'')),
      http_get = (\<lambda>u. Fault 1 (RequestException ''Connection reset by peer'')),
      makedirs_error = (\<lambda>p. None),
      write_error = (\<lambda>p. None),
      str_value = (\<lambda>v. ''...''),
      str_error = (\<lambda>e. ''...'')\<rparr>"

text \<open>A server that refuses the job with HTTP 403, after half a second.\<close>

definition world_forbidden :: world where
  "world_forbidden = world_offline\<lparr>tryon_post := Answer (1/2) (plain_response 403 ''Forbidden'')\<rparr>"

text \<open>
  A server that accepts the job after 5 seconds and answers every status query at once
  with \<open>{"message": "success", "status": "processing"}\<close>.
\<close>

definition world_never_done :: world where
  "world_never_done = world_offline
     \<lparr>tryon_post := Answer 5 (json_response 200 (JObj [(''tryon_id'', JStr ''T1'')])),
      status_post := (\<lambda>k. Answer 0 (json_response 200
         (JObj [(''message'', JStr ''success''), (''status'', JStr ''processing'')])))\<rparr>"

text \<open>
  A server that accepts the job, reports it done at the second status query and serves
  every image.
\<close>

definition world_done :: world where
  "world_done = world_offline
     \<lparr>tryon_post := Answer 1 (json_response 200 (JObj [(''tryon_id'', JStr ''T1'')])),
      status_post := (\<lambda>k. Answer 1 (json_response 200
         (if k = 0 then JObj [(''message'', JStr ''success''), (''status'', JStr ''processing'')]
          else JObj [(''message'', JStr ''success''), (''status'', JStr ''done''),
                     (''s3_url'', JStr ''https://example.org/out.jpg''),
                     (''garment_id'', JStr ''G1''), (''human_id'', JStr ''H1'')]))),
      http_get := (\<lambda>u. Answer 1 (image_response (flat_image 2 3 (7, 7, 7))))\<rparr>"





text \<open>Two result records, for the examples of the manifest.\<close>

definition example_success :: request where
  "example_success =
     \<lparr>folder = ''h40__g20'', status = ''success'', duration = 30, note_text = [],
      tryon_id = JStr ''T1'', garment_url = ''https://example.org/h40__g20/garment.jpg?v=42'',
      human_url = ''https://example.org/h40__g20/human.jpg?v=42'', garment_id = JStr ''G1'',
      human_id = JStr ''H1''\<rparr>"

definition example_timeout :: request where
  "example_timeout =
     example_success\<lparr>folder := ''h9__g11'', status := ''timeout'', duration := 185,
       note_text := ''TIMEOUT waiting for tryon to complete'', garment_id := JNull,
       human_id := JNull\<rparr>"




section \<open>The DALL-E runner (scripts/dalle_runner.py)\<close>

text \<open>
  The outside of one call chain of \<open>gen_one\<close>: the outcome of the generation POST and of
  the image GET in the \<open>k\<close>-th invocation (counted from 0), what writing a file raises,
  if anything, and the size in bytes that \<open>stat\<close> reports for a file.
\<close>

record gen_world =
  generation_post :: "nat \<Rightarrow> http_result"
  image_get :: "nat \<Rightarrow> string \<Rightarrow> http_result"
  image_write_error :: "string \<Rightarrow> exn option"
  st_size :: "file_content \<Rightarrow> nat"

definition openai_url :: string where
  "openai_url = ''https://api.openai.com/v1/images/generations''"

text \<open>\<open>OUT / f"{fname}.png"\<close>\<close>

definition gen_out_path :: "string \<Rightarrow> string" where
  "gen_out_path fname = ''generated_brand_products/'' @ fname @ ''.png''"

text \<open>
  \<open>Response.raise_for_status()\<close> of the \<open>requests\<close> library: an \<open>HTTPError\<close> that carries
  the response, for a status from 400 to 599.
\<close>

definition raise_for_status :: "response \<Rightarrow> exn + unit" where
  "raise_for_status r =
     (if 400 \<le> status_code r \<and> status_code r < 600 then Inl (HTTPError (Some r)) else Inr ())"

text \<open>
  The truth value of a \<open>Response\<close> object. The library defines \<open>Response.__bool__\<close> as
  \<open>self.ok\<close>, and \<open>ok\<close> as: call \<open>raise_for_status()\<close>, \<open>False\<close> if it raises \<open>HTTPError\<close>,
  \<open>True\<close> otherwise.
\<close>

definition response_bool :: "response \<Rightarrow> bool" where
  "response_bool r = (case raise_for_status r of Inl e \<Rightarrow> False | Inr u \<Rightarrow> True)"

text \<open>The local \<open>code\<close> of the handler: a status code, or the string \<open>"?"\<close>.\<close>

datatype code = Code int | Unknown

text \<open>
  \<open>code = e.response.status_code if e.response else "?"\<close>: the condition is the truth
  value of \<open>e.response\<close>, which is false for \<open>None\<close> and \<open>response_bool\<close> for a response.
\<close>

definition error_code :: "response option \<Rightarrow> code" where
  "error_code resp =
     (case resp of
        None \<Rightarrow> Unknown
      | Some r \<Rightarrow> if response_bool r then Code (status_code r) else Unknown)"

text \<open>\<open>r.json()["data"][0]["url"]\<close>\<close>

definition generated_url :: "response \<Rightarrow> exn + json" where
  "generated_url r =
     (case json_of r of
        None \<Rightarrow> Inl JSONDecodeError
      | Some j \<Rightarrow>
          (case subscript j ''data'' of
             Inl e \<Rightarrow> Inl e
           | Inr d \<Rightarrow>
               (case subscript0 d of
                  Inl e \<Rightarrow> Inl e
                | Inr d0 \<Rightarrow> subscript d0 ''url'')))"

text \<open>
  The body of the \<open>try\<close> of the \<open>k\<close>-th invocation, lines 35 to 47. \<open>item["prompt"]\<close> is
  evaluated before the POST is sent. A URL that is not a string makes \<open>requests.get\<close>
  raise before any request is sent.
\<close>

definition gen_try ::
  "gen_world \<Rightarrow> (string \<Rightarrow> string option) \<Rightarrow> string \<Rightarrow> nat \<Rightarrow> state \<Rightarrow> (string \<times> string option) outcome" where
  "gen_try w item fname k st =
     (case item ''prompt'' of
        None \<Rightarrow> Raised (KeyError ''prompt'') st
      | Some prompt \<Rightarrow>
          (case generation_post w k of
             Fault t e \<Rightarrow> Raised e (tick t (HttpPost openai_url) st)
           | Answer t r \<Rightarrow>
               (let st = tick t (HttpPost openai_url) st in
                case raise_for_status r of
                  Inl e \<Rightarrow> Raised e st
                | Inr u \<Rightarrow>
                    (case generated_url r of
                       Inl e \<Rightarrow> Raised e st
                     | Inr (JStr image_url) \<Rightarrow>
                         (case image_get w k image_url of
                            Fault t e \<Rightarrow> Raised e (tick t (HttpGet image_url) st)
                          | Answer t img \<Rightarrow>
                              (let st = tick t (HttpGet image_url) st in
                               case raise_for_status img of
                                 Inl e \<Rightarrow> Raised e st
                               | Inr u \<Rightarrow>
                                   (case image_write_error w (gen_out_path fname) of
                                      Some e \<Rightarrow> Raised e st
                                    | None \<Rightarrow>
                                        Returned (fname, Some (gen_out_path fname))
                                          (st\<lparr>files := (files st)(gen_out_path fname \<mapsto>
                                                 content img)\<rparr>))))
                     | Inr other \<Rightarrow> Raised (InvalidURL other) st))))"

text \<open>
  What the two \<open>except\<close> clauses do with an exception of the \<open>try\<close>: \<open>Some\<close> of the value
  to return, or \<open>None\<close> when the handler has decided to retry (\<open>code == 429\<close>).
\<close>

definition gen_handler :: "string \<Rightarrow> exn \<Rightarrow> (string \<times> string option) option" where
  "gen_handler fname e =
     (case e of
        HTTPError resp \<Rightarrow> if error_code resp = Code 429 then None else Some (fname, None)
      | other \<Rightarrow> Some (fname, None))"

text \<open>
  \<open>gen_one(item, idx, total)\<close>; \<open>k\<close> counts the invocations of the call chain. The retry
  is a recursive call with no bound, so the function is partial: \<open>None\<close> is a call chain
  that never returns. \<open>item["filename"]\<close> is outside the \<open>try\<close>.
\<close>

partial_function (option) gen_one ::
  "gen_world \<Rightarrow> (string \<Rightarrow> string option) \<Rightarrow> nat \<Rightarrow> state \<Rightarrow> (string \<times> string option) outcome option" where
  "gen_one w item k st =
     (case item ''filename'' of
        None \<Rightarrow> Some (Raised (KeyError ''filename'') st)
      | Some fname \<Rightarrow>
          if (case files st (gen_out_path fname) of None \<Rightarrow> False | Some c \<Rightarrow> 10000 < st_size w c)
          then Some (Returned (fname, Some (gen_out_path fname)) st)
          else
            (case gen_try w item fname k st of
               Returned res st \<Rightarrow> Some (Returned res st)
             | Raised e st \<Rightarrow>
                 (case gen_handler fname e of
                    Some res \<Rightarrow> Some (Returned res st)
                  | None \<Rightarrow> gen_one w item (k + 1) (tick 60 (Sleep 60) st))))"

text \<open>An item, and an API that answers every generation request with HTTP 429.\<close>

definition example_item :: "string \<Rightarrow> string option" where
  "example_item = [''filename'' \<mapsto> ''kurta_01'', ''prompt'' \<mapsto> ''A cotton kurta'']"

definition world_rate_limited :: gen_world where
  "world_rate_limited =
     \<lparr>generation_post = (\<lambda>k. Answer 1 (plain_response 429 ''Too Many Requests'')),
      image_get = (\<lambda>k u. Fault 1 (RequestException ''Connection reset by peer'')),
      image_write_error = (\<lambda>p. None),
      st_size = (\<lambda>c. 0)\<rparr>"

section \<open>Partition lemmas\<close>

lemma slice_short: "length xs \<le> i \<Longrightarrow> slice_from_step xs i n = []"
  by (subst slice_from_step.simps) simp

lemma slice_step:
  "i < length xs \<Longrightarrow> 0 < n \<Longrightarrow> slice_from_step xs i n = xs ! i # slice_from_step xs (i + n) n"
  by (subst slice_from_step.simps) simp

text \<open>Shifting the start by \<open>m\<close> is slicing the list without its first \<open>m\<close> elements.\<close>

lemma slice_drop: "slice_from_step xs (i + m) n = slice_from_step (drop m xs) i n"
proof (induction "length xs - i" arbitrary: i rule: less_induct)
  case less
  show ?case
  proof (cases "i + m < length xs \<and> 0 < n")
    case True
    then have lt: "length xs - (i + n) < length xs - i" by arith
    have "slice_from_step xs (i + n + m) n = slice_from_step (drop m xs) (i + n) n"
      by (rule less.hyps[OF lt])
    moreover have "i + m + n = i + n + m" by simp
    ultimately have rec: "slice_from_step xs (i + m + n) n = slice_from_step (drop m xs) (i + n) n"
      by (simp only:)
    have lt2: "i < length (drop m xs)" using True by auto
    have nth: "drop m xs ! i = xs ! (i + m)" using True by (simp add: add.commute)
    have "slice_from_step xs (i + m) n = xs ! (i + m) # slice_from_step xs (i + m + n) n"
      using True by (simp only: slice_step)
    moreover have "slice_from_step (drop m xs) i n
        = drop m xs ! i # slice_from_step (drop m xs) (i + n) n"
      using True lt2 by (simp only: slice_step)
    ultimately show ?thesis
      by (simp only: rec nth)
  next
    case False
    then have "n = 0 \<or> (length xs \<le> i + m \<and> length (drop m xs) \<le> i)" by auto
    then show ?thesis
      by (subst slice_from_step.simps, subst (2) slice_from_step.simps) auto
  qed
qed

lemma slice_block:
  assumes "0 < n" "i < n" "n \<le> length xs"
  shows "slice_from_step xs i n = xs ! i # slice_from_step (drop n xs) i n"
  using assms slice_drop[of xs i n n] by (simp add: slice_step)

lemma chunks_block:
  assumes "0 < n" "n \<le> length xs"
  shows "folder_chunks xs n = map (\<lambda>i. xs ! i # folder_chunks (drop n xs) n ! i) [0..<n]"
  unfolding folder_chunks_def using assms by (auto simp: slice_block)

lemma chunks_small:
  assumes "length xs < n"
  shows "folder_chunks xs n = map (\<lambda>i. if i < length xs then [xs ! i] else []) [0..<n]"
  unfolding folder_chunks_def using assms by (auto simp: slice_step slice_short)

lemma mset_nth_upt: "n \<le> length xs \<Longrightarrow> (\<Sum>i\<leftarrow>[0..<n]. {#xs ! i#}) = mset (take n xs)"
proof (induction n)
  case 0
  then show ?case by simp
next
  case (Suc n)
  then show ?case by (simp add: take_Suc_conv_app_nth)
qed

lemma mset_small:
  "length xs \<le> n \<Longrightarrow>
   (\<Sum>i\<leftarrow>[0..<n]. mset (if i < length xs then [xs ! i] else [])) = mset xs"
proof (induction n)
  case 0
  then show ?case by simp
next
  case (Suc n)
  show ?case
  proof (cases "length xs \<le> n")
    case True
    then show ?thesis using Suc.IH by simp
  next
    case False
    then have len: "length xs = Suc n" using Suc.prems by simp
    have "(\<Sum>i\<leftarrow>[0..<n]. mset (if i < length xs then [xs ! i] else []))
        = (\<Sum>i\<leftarrow>[0..<n]. {#xs ! i#})"
      by (rule arg_cong[where f=sum_list], rule map_cong) (auto simp: len)
    also have "\<dots> = mset (take n xs)" by (rule mset_nth_upt) (simp add: len)
    finally have "(\<Sum>i\<leftarrow>[0..<n]. mset (if i < length xs then [xs ! i] else []))
        = mset (take n xs)" .
    moreover have "xs = take n xs @ [xs ! n]"
      using len by (metis lessI take_Suc_conv_app_nth take_all order_refl)
    then have "mset xs = add_mset (xs ! n) (mset (take n xs))"
      by (metis mset.simps(2) mset_append union_mset_add_mset_right add.right_neutral
          mset.simps(1))
    ultimately show ?thesis using len by simp
  qed
qed

lemma mset_concat_chunks: "0 < n \<Longrightarrow> mset (concat (folder_chunks xs n)) = mset xs"
proof (induction "length xs" arbitrary: xs rule: less_induct)
  case less
  show ?case
  proof (cases "n \<le> length xs")
    case True
    have ih: "mset (concat (folder_chunks (drop n xs) n)) = mset (drop n xs)"
      using less.hyps[of "drop n xs"] less.prems True by simp
    have len: "length (folder_chunks (drop n xs) n) = n" by (simp add: folder_chunks_def)
    have "mset (concat (folder_chunks xs n))
        = (\<Sum>i\<leftarrow>[0..<n]. {#xs ! i#} + mset (folder_chunks (drop n xs) n ! i))"
      by (simp add: chunks_block[OF less.prems True] mset_concat comp_def)
    also have "\<dots> = (\<Sum>i\<leftarrow>[0..<n]. {#xs ! i#})
        + (\<Sum>i\<leftarrow>[0..<n]. mset (folder_chunks (drop n xs) n ! i))"
      by (simp only: sum_list_addf)
    also have "(\<Sum>i\<leftarrow>[0..<n]. mset (folder_chunks (drop n xs) n ! i))
        = mset (concat (folder_chunks (drop n xs) n))"
    proof -
      have "map (\<lambda>i. mset (folder_chunks (drop n xs) n ! i)) [0..<n]
          = map mset (map ((!) (folder_chunks (drop n xs) n))
              [0..<length (folder_chunks (drop n xs) n)])"
        by (simp only: len map_map comp_def)
      then show ?thesis by (simp only: map_nth mset_concat)
    qed
    also have "(\<Sum>i\<leftarrow>[0..<n]. {#xs ! i#}) = mset (take n xs)"
      by (rule mset_nth_upt[OF True])
    finally have "mset (concat (folder_chunks xs n)) = mset (take n xs) + mset (drop n xs)"
      by (simp only: ih)
    also have "\<dots> = mset (take n xs @ drop n xs)" by (simp only: mset_append)
    finally show ?thesis by simp
  next
    case False
    then show ?thesis
      by (simp add: chunks_small mset_concat comp_def mset_small)
  qed
qed

lemma chunk_sizes_balanced:
  "0 < n \<Longrightarrow> i < n \<Longrightarrow> j < n \<Longrightarrow>
   length (slice_from_step xs i n) \<le> length (slice_from_step xs j n) + 1"
proof (induction "length xs" arbitrary: xs rule: less_induct)
  case less
  show ?case
  proof (cases "n \<le> length xs")
    case True
    have "length (slice_from_step (drop n xs) i n)
        \<le> length (slice_from_step (drop n xs) j n) + 1"
      using less.hyps[of "drop n xs"] less.prems True by simp
    then show ?thesis
      using less.prems True by (simp add: slice_block)
  next
    case False
    have "length (slice_from_step xs i n) \<le> 1"
      using False less.prems by (cases "i < length xs") (simp_all add: slice_step slice_short)
    then show ?thesis by simp
  qed
qed

text \<open>
  C7. For every list of work-item keys and every thread count \<open>n \<ge> 1\<close>, the round-robin
  partition consists of \<open>n\<close> chunks; every item lies in exactly one chunk (the chunks put
  together hold each item as often as the list does, and for keys without repetition, as the
  keys of a dict are, no item occurs twice among them); and the sizes of any two
  chunks differ by at most one.
\<close>

theorem folder_chunks_partition:
  assumes "1 \<le> n"
  shows "length (folder_chunks xs n) = n
       \<and> mset (concat (folder_chunks xs n)) = mset xs
       \<and> (distinct xs \<longrightarrow> distinct (concat (folder_chunks xs n)))
       \<and> (\<forall>i<n. \<forall>j<n.
            length (folder_chunks xs n ! i) \<le> length (folder_chunks xs n ! j) + 1)"
proof -
  have n: "0 < n" using assms by simp
  have m: "mset (concat (folder_chunks xs n)) = mset xs" by (rule mset_concat_chunks[OF n])
  have d: "distinct xs \<longrightarrow> distinct (concat (folder_chunks xs n))"
    using mset_eq_imp_distinct_iff[OF m] by simp
  have b: "\<forall>i<n. \<forall>j<n.
      length (folder_chunks xs n ! i) \<le> length (folder_chunks xs n ! j) + 1"
    using chunk_sizes_balanced[OF n] by (auto simp: folder_chunks_def)
  show ?thesis using m d b by (simp add: folder_chunks_def)
qed

theorem folder_chunks_partition_witness:
  "folder_chunks [''a'', ''b'', ''c'', ''d'', ''e'', ''f'', ''g''] 5
     = [[''a'', ''f''], [''b'', ''g''], [''c''], [''d''], [''e'']]
   \<and> mset (concat (folder_chunks [''a'', ''b'', ''c'', ''d'', ''e'', ''f'', ''g''] 5))
     = mset [''a'', ''b'', ''c'', ''d'', ''e'', ''f'', ''g'']
   \<and> distinct (concat (folder_chunks [''a'', ''b'', ''c'', ''d'', ''e'', ''f'', ''g''] 5))"
  using folder_chunks_partition[of 5 "[''a'', ''b'', ''c'', ''d'', ''e'', ''f'', ''g'']"]
  by (simp add: folder_chunks_def slice_from_step.simps upt_rec)

section \<open>Key rotation lemmas\<close>

lemma get_clients_run:
  "API_KEYS \<noteq> [] \<Longrightarrow>
   get_clients API_KEYS m c
     = Inr (map (\<lambda>j. API_KEYS ! ((c + j) mod length API_KEYS)) [0..<m], c + m)"
proof (induction m arbitrary: c)
  case 0
  then show ?case by simp
next
  case (Suc m)
  have "get_clients API_KEYS m (c + 1)
      = Inr (map (\<lambda>j. API_KEYS ! ((c + 1 + j) mod length API_KEYS)) [0..<m], c + 1 + m)"
    by (rule Suc.IH[OF Suc.prems])
  then show ?case
    using Suc.prems by (simp add: get_next_client_def map_upt_Suc del: upt_Suc)
qed

lemma mset_rotate1_eq: "mset (rotate1 xs) = mset xs"
  by (cases xs) simp_all

lemma mset_rotate_eq: "mset (rotate c xs) = mset xs"
  by (induction c) (simp_all add: mset_rotate1_eq)

lemma round_of_keys:
  "map (\<lambda>j. xs ! ((c + j) mod length xs)) [0..<length xs] = rotate c xs"
  by (rule nth_equalityI) (simp_all add: nth_rotate)

text \<open>
  C10. With a non-empty key list, a call of \<open>get_next_client\<close> that finds the counter at \<open>k\<close>
  returns the client for \<open>API_KEYS[k mod len(API_KEYS)]\<close> and leaves the counter at \<open>k + 1\<close>;
  so the first \<open>m\<close> calls of a run, the counter starting at 0, use the keys at the positions
  \<open>0 mod len, 1 mod len, ...\<close> and leave the counter at \<open>m\<close>; and any \<open>len(API_KEYS)\<close> consecutive
  calls use every key of the list exactly as often as it occurs there, once each for
  distinct keys.
\<close>

theorem get_next_client_round_robin:
  assumes "API_KEYS \<noteq> []"
  shows "get_next_client API_KEYS k = Inr (API_KEYS ! (k mod length API_KEYS), k + 1)
       \<and> get_clients API_KEYS m 0 = Inr (map (\<lambda>k. API_KEYS ! (k mod length API_KEYS)) [0..<m], m)
       \<and> (\<exists>keys. get_clients API_KEYS (length API_KEYS) c = Inr (keys, c + length API_KEYS)
                \<and> mset keys = mset API_KEYS)"
proof -
  have a: "get_next_client API_KEYS k = Inr (API_KEYS ! (k mod length API_KEYS), k + 1)"
    using assms by (simp add: get_next_client_def)
  have b: "get_clients API_KEYS m 0 = Inr (map (\<lambda>k. API_KEYS ! (k mod length API_KEYS)) [0..<m], m)"
    using get_clients_run[OF assms, of m 0] by simp
  have c: "get_clients API_KEYS (length API_KEYS) c = Inr (rotate c API_KEYS, c + length API_KEYS)"
    using get_clients_run[OF assms, of "length API_KEYS" c] by (simp only: round_of_keys)
  show ?thesis using a b c by (simp add: mset_rotate_eq)
qed


theorem get_next_client_round_robin_witness:
  "[''k0'', ''k1'', ''k2''] \<noteq> []
   \<and> get_next_client [''k0'', ''k1'', ''k2''] 4 = Inr (''k1'', 5)
   \<and> get_clients [''k0'', ''k1'', ''k2''] 5 0 = Inr ([''k0'', ''k1'', ''k2'', ''k0'', ''k1''], 5)
   \<and> (\<exists>keys. get_clients [''k0'', ''k1'', ''k2''] 3 4 = Inr (keys, 7)
         \<and> mset keys = mset [''k0'', ''k1'', ''k2''])"
proof -
  have ne: "[''k0'', ''k1'', ''k2''] \<noteq> []" by simp
  note t = get_next_client_round_robin[OF ne, of 4 5 4]
  have a: "get_next_client [''k0'', ''k1'', ''k2''] 4 = Inr (''k1'', 5)"
    using t[THEN conjunct1] by simp
  have b: "get_clients [''k0'', ''k1'', ''k2''] 5 0 = Inr ([''k0'', ''k1'', ''k2'', ''k0'', ''k1''], 5)"
    using t[THEN conjunct2, THEN conjunct1] by (simp add: upt_rec)
  have c: "\<exists>keys. get_clients [''k0'', ''k1'', ''k2''] 3 4 = Inr (keys, 7)
         \<and> mset keys = mset [''k0'', ''k1'', ''k2'']"
    using t[THEN conjunct2, THEN conjunct2] by (simp add: numeral_3_eq_3 del: get_clients.simps)
  show ?thesis using ne a b c by (intro conjI)
qed

section \<open>Compositor lemmas\<close>

lemma stack_width: "width (stack_three_images img1 img2 img3) = width img1 + width img2 + width img3"
  by (simp add: stack_three_images_def Let_def paste_def Image_new_def)

lemma stack_height: "height (stack_three_images img1 img2 img3) = max (height img1) (max (height img2) (height img3))"
  by (simp add: stack_three_images_def Let_def paste_def Image_new_def)

lemma stack_getpixel:
  "getpixel (stack_three_images img1 img2 img3) x y =
     (if width img1 + width img2 \<le> x \<and> x < width img1 + width img2 + width img3 \<and> y < height img3
      then getpixel img3 (x - (width img1 + width img2)) y
      else if width img1 \<le> x \<and> x < width img1 + width img2 \<and> y < height img2
      then getpixel img2 (x - width img1) y
      else if x < width img1 \<and> y < height img1
      then getpixel img1 x y
      else (0, 0, 0))"
  by (auto simp add: stack_three_images_def Let_def paste_def Image_new_def)


text \<open>
  C8. For any three images the canvas is as wide as the three widths together and as high
  as the highest image; image 1 appears at horizontal offset 0, image 2 at offset \<open>w1\<close> and
  image 3 at offset \<open>w1 + w2\<close>, each with its top row on row 0 of the canvas; below a
  shorter image the canvas keeps the black it was created with.
\<close>

theorem stack_three_images_layout:
  "width (stack_three_images img1 img2 img3) = width img1 + width img2 + width img3
   \<and> height (stack_three_images img1 img2 img3)
       = max (height img1) (max (height img2) (height img3))
   \<and> (\<forall>x y. x < width img1 \<and> y < height img1 \<longrightarrow>
         getpixel (stack_three_images img1 img2 img3) x y = getpixel img1 x y)
   \<and> (\<forall>x y. x < width img2 \<and> y < height img2 \<longrightarrow>
         getpixel (stack_three_images img1 img2 img3) (width img1 + x) y = getpixel img2 x y)
   \<and> (\<forall>x y. x < width img3 \<and> y < height img3 \<longrightarrow>
         getpixel (stack_three_images img1 img2 img3) (width img1 + width img2 + x) y
           = getpixel img3 x y)
   \<and> (\<forall>x y. (x < width img1 \<and> height img1 \<le> y)
            \<or> (width img1 \<le> x \<and> x < width img1 + width img2 \<and> height img2 \<le> y)
            \<or> (width img1 + width img2 \<le> x \<and> height img3 \<le> y) \<longrightarrow>
         getpixel (stack_three_images img1 img2 img3) x y = (0, 0, 0))"
proof -
  have p1: "\<forall>x y. x < width img1 \<and> y < height img1 \<longrightarrow>
         getpixel (stack_three_images img1 img2 img3) x y = getpixel img1 x y"
    by (simp add: stack_getpixel)
  have p2: "\<forall>x y. x < width img2 \<and> y < height img2 \<longrightarrow>
         getpixel (stack_three_images img1 img2 img3) (width img1 + x) y = getpixel img2 x y"
    by (simp add: stack_getpixel)
  have p3: "\<forall>x y. x < width img3 \<and> y < height img3 \<longrightarrow>
         getpixel (stack_three_images img1 img2 img3) (width img1 + width img2 + x) y
           = getpixel img3 x y"
    by (simp add: stack_getpixel)
  have p4: "\<forall>x y. (x < width img1 \<and> height img1 \<le> y)
            \<or> (width img1 \<le> x \<and> x < width img1 + width img2 \<and> height img2 \<le> y)
            \<or> (width img1 + width img2 \<le> x \<and> height img3 \<le> y) \<longrightarrow>
         getpixel (stack_three_images img1 img2 img3) x y = (0, 0, 0)"
    by (auto simp add: stack_getpixel)
  show ?thesis
    using p1 p2 p3 p4 by (simp only: stack_width stack_height simp_thms)
qed

theorem stack_three_images_layout_witness:
  "width (stack_three_images (flat_image 100 100 (1, 1, 1)) (flat_image 80 150 (2, 2, 2))
      (flat_image 120 90 (3, 3, 3))) = 300
   \<and> height (stack_three_images (flat_image 100 100 (1, 1, 1)) (flat_image 80 150 (2, 2, 2))
      (flat_image 120 90 (3, 3, 3))) = 150
   \<and> getpixel (stack_three_images (flat_image 100 100 (1, 1, 1)) (flat_image 80 150 (2, 2, 2))
      (flat_image 120 90 (3, 3, 3))) 99 99 = (1, 1, 1)
   \<and> getpixel (stack_three_images (flat_image 100 100 (1, 1, 1)) (flat_image 80 150 (2, 2, 2))
      (flat_image 120 90 (3, 3, 3))) 100 149 = (2, 2, 2)
   \<and> getpixel (stack_three_images (flat_image 100 100 (1, 1, 1)) (flat_image 80 150 (2, 2, 2))
      (flat_image 120 90 (3, 3, 3))) 180 0 = (3, 3, 3)
   \<and> getpixel (stack_three_images (flat_image 100 100 (1, 1, 1)) (flat_image 80 150 (2, 2, 2))
      (flat_image 120 90 (3, 3, 3))) 50 120 = (0, 0, 0)"
proof -
  let ?a = "flat_image 100 100 (1, 1, 1)"
  let ?b = "flat_image 80 150 (2, 2, 2)"
  let ?c = "flat_image 120 90 (3, 3, 3)"
  note t = stack_three_images_layout[of ?a ?b ?c]
  have w: "width (stack_three_images ?a ?b ?c) = 300"
    using t[THEN conjunct1] by (simp add: flat_image_def)
  have h: "height (stack_three_images ?a ?b ?c) = 150"
    using t[THEN conjunct2, THEN conjunct1] by (simp add: flat_image_def)
  have p1: "getpixel (stack_three_images ?a ?b ?c) 99 99 = (1, 1, 1)"
    using t[THEN conjunct2, THEN conjunct2, THEN conjunct1, rule_format, of 99 99]
    by (simp add: flat_image_def)
  have p2: "getpixel (stack_three_images ?a ?b ?c) 100 149 = (2, 2, 2)"
    using t[THEN conjunct2, THEN conjunct2, THEN conjunct2, THEN conjunct1, rule_format, of 0 149]
    by (simp add: flat_image_def)
  have p3: "getpixel (stack_three_images ?a ?b ?c) 180 0 = (3, 3, 3)"
    using t[THEN conjunct2, THEN conjunct2, THEN conjunct2, THEN conjunct2, THEN conjunct1,
        rule_format, of 0 0]
    by (simp add: flat_image_def)
  have p4: "getpixel (stack_three_images ?a ?b ?c) 50 120 = (0, 0, 0)"
    using t[THEN conjunct2, THEN conjunct2, THEN conjunct2, THEN conjunct2, THEN conjunct2,
        rule_format, of 50 120]
    by (simp add: flat_image_def)
  show ?thesis using w h p1 p2 p3 p4 by (intro conjI)
qed

section \<open>Properties of the try-on runner\<close>

subsection \<open>The manifest under append\<close>

lemma trace_append_and_persist: "trace (append_and_persist r st) = trace st"
  by (simp add: append_and_persist_def Let_def)

lemma requests_append_and_persist:
  "requests (results_summary (append_and_persist r st)) = requests (results_summary st) @ [r]"
  by (simp add: append_and_persist_def Let_def)

lemma now_append_and_persist: "now (append_and_persist r st) = now st"
  by (simp add: append_and_persist_def Let_def)

subsection \<open>Building the payload\<close>

lemma build_data_urls:
  assumes "item ''human_id'' = None" "item ''human_url'' = Some hu"
      and "item ''garment_id'' = None" "item ''garment_url'' = Some gu"
      and "item ''garment_type'' = Some gt"
  shows "build_data item rnd
       = Inr ([''human_url'' \<mapsto> hu @ ''?v='' @ str_int rnd,
               ''garment_url'' \<mapsto> gu @ ''?v='' @ str_int rnd,
               ''garment_type'' \<mapsto> gt, ''mode'' \<mapsto> ''fast''], JNull, JNull)"
  using assms by (simp add: build_data_def)

lemma example_item_h40:
  "example_input_json ''h40__g20''
     = Some [''human_url'' \<mapsto> ''https://example.org/h40__g20/human.jpg'',
         ''garment_url'' \<mapsto> ''https://example.org/h40__g20/garment.jpg'',
         ''garment_type'' \<mapsto> ''full'', ''mode'' \<mapsto> ''fast'']"
  by (simp add: example_input_json_def)

subsection \<open>\<open>download_image\<close>\<close>




subsection \<open>A failed submission\<close>

text \<open>
  C4. For a work item whose payload can be built, if the job-creation POST raises or
  answers a status other than 200, \<open>process_folder\<close> returns after appending one record:
  its status is \<open>fail\<close>, its note holds the exception text, or the status code and the
  response text, and the only call made is the one job-creation POST: no sleep, no status
  query, no second submission.
\<close>

theorem submission_failure_is_terminal:
  assumes "input_json folder_name = Some item"
      and "build_data item (random_number w) = Inr (data, g, h)"
      and "tryon_post w = Fault t e \<or> (tryon_post w = Answer t r \<and> status_code r \<noteq> 200)"
  shows "\<exists>st'. process_folder input_json w folder_name st = Returned () st'
       \<and> requests (results_summary st') = requests (results_summary st) @
           [\<lparr>folder = folder_name, status = ''fail'', duration = t,
             note_text = (case tryon_post w of
                 Fault t e \<Rightarrow> ''Exception: '' @ str_exn w e
               | Answer t r \<Rightarrow> ''ERROR resp '' @ folder_name @ '', '' @ str_int (status_code r)
                                 @ '', '' @ text_of r),
             tryon_id = JNull, garment_url = get_or_empty data ''garment_url'',
             human_url = get_or_empty data ''human_url'', garment_id = g, human_id = h\<rparr>]
       \<and> trace st' = trace st @ [HttpPost url]"
  using assms
  by (auto simp add: process_folder_def submission_failed_def Let_def tick_def
      trace_append_and_persist requests_append_and_persist now_append_and_persist)

theorem submission_failure_is_terminal_witness:
  "\<exists>st'. process_folder example_input_json world_forbidden ''h40__g20'' initial_state
         = Returned () st'
     \<and> requests (results_summary st') =
         [\<lparr>folder = ''h40__g20'', status = ''fail'', duration = 1/2,
           note_text = ''ERROR resp h40__g20, 403, Forbidden'', tryon_id = JNull,
           garment_url = ''https://example.org/h40__g20/garment.jpg?v=42'',
           human_url = ''https://example.org/h40__g20/human.jpg?v=42'',
           garment_id = JNull, human_id = JNull\<rparr>]
     \<and> trace st' = [HttpPost url]"
proof -
  have rnd: "random_number world_forbidden = 42"
    by (simp add: world_forbidden_def world_offline_def)
  have bd: "build_data [''human_url'' \<mapsto> ''https://example.org/h40__g20/human.jpg'',
         ''garment_url'' \<mapsto> ''https://example.org/h40__g20/garment.jpg'',
         ''garment_type'' \<mapsto> ''full'', ''mode'' \<mapsto> ''fast''] (random_number world_forbidden)
      = Inr ([''human_url'' \<mapsto> ''https://example.org/h40__g20/human.jpg'' @ ''?v='' @ str_int 42,
               ''garment_url'' \<mapsto> ''https://example.org/h40__g20/garment.jpg'' @ ''?v='' @ str_int 42,
               ''garment_type'' \<mapsto> ''full'', ''mode'' \<mapsto> ''fast''], JNull, JNull)"
    unfolding rnd by (rule build_data_urls) simp_all
  have post: "tryon_post world_forbidden = Fault (1/2) TypeError
      \<or> (tryon_post world_forbidden = Answer (1/2) (plain_response 403 ''Forbidden'')
          \<and> status_code (plain_response 403 ''Forbidden'') \<noteq> 200)"
    by (simp add: world_forbidden_def world_offline_def plain_response_def)
  from submission_failure_is_terminal[where input_json = example_input_json
      and folder_name = "''h40__g20''" and st = initial_state, OF example_item_h40 bd post]
  show ?thesis
    by (simp add: world_forbidden_def world_offline_def plain_response_def get_or_empty_def
        str_int_def str_nat.simps initial_state_def initial_summary_def)
qed

subsection \<open>A job that never finishes\<close>

lemma poll_loop_pending_step:
  assumes "still_running (status_post w (poll_count v))"
  shows "poll_loop w item folder_name (wait # rest) v st
       = poll_loop w item folder_name rest (v\<lparr>poll_count := poll_count v + 1\<rparr>)
           (tick (elapsed (status_post w (poll_count v))) (HttpPost fetch_url)
              (tick (real wait) (Sleep wait) st))"
  using assms
  by (auto simp add: still_running_def Let_def split: http_result.splits option.splits sum.splits)

lemma poll_loop_pending:
  assumes "\<forall>k. still_running (status_post w k)"
  shows "poll_loop w item folder_name ws v st
       = Returned
           (v\<lparr>poll_count := poll_count v + length ws,
              cur_note := ''TIMEOUT waiting for tryon to complete'', cur_status := ''timeout''\<rparr>)
           (st\<lparr>now := now st + real (sum_list ws)
                    + (\<Sum>j<length ws. elapsed (status_post w (poll_count v + j))),
               trace := trace st @ concat (map (\<lambda>wait. [Sleep wait, HttpPost fetch_url]) ws)\<rparr>)"
proof (induction ws arbitrary: v st)
  case Nil
  then show ?case by simp
next
  case (Cons wait rest)
  have run: "still_running (status_post w (poll_count v))" using assms by simp
  have shift: "(\<Sum>j<length (wait # rest). elapsed (status_post w (poll_count v + j)))
      = elapsed (status_post w (poll_count v))
        + (\<Sum>j<length rest. elapsed (status_post w (poll_count v + 1 + j)))"
    by (simp add: sum.lessThan_Suc_shift del: sum.lessThan_Suc)
  show ?case
    by (simp only: poll_loop_pending_step[OF run] Cons.IH shift)
       (simp add: tick_def algebra_simps)
qed

lemma sum_wait_times: "sum_list wait_times = 180" "length wait_times = 9"
  by (simp_all add: wait_times_def)

lemma process_folder_pending:
  assumes item: "input_json folder_name = Some item"
      and bd: "build_data item (random_number w) = Inr (data, g, h)"
      and urls: "data ''garment_url'' = Some gu" "data ''human_url'' = Some hu"
      and post: "tryon_post w = Answer t0 r0" "status_code r0 = 200" "json_of r0 = Some j0"
                "dict_get j0 ''tryon_id'' = Inr tid"
      and run: "\<forall>k. still_running (status_post w k)"
  shows "process_folder input_json w folder_name st
       = Returned () (append_and_persist
           \<lparr>folder = folder_name, status = ''timeout'',
            duration = t0 + 180 + (\<Sum>k<9. elapsed (status_post w k)),
            note_text = ''TIMEOUT waiting for tryon to complete'', tryon_id = tid,
            garment_url = gu, human_url = hu, garment_id = g, human_id = h\<rparr>
           (st\<lparr>now := now st + t0 + 180 + (\<Sum>k<9. elapsed (status_post w k)),
               trace := trace st @ HttpPost url
                  # concat (map (\<lambda>wait. [Sleep wait, HttpPost fetch_url]) wait_times)\<rparr>))"
  unfolding process_folder_def
  by (simp add: item bd urls post poll_loop_pending[OF run] sum_wait_times tick_def Let_def
      algebra_simps)


text \<open>
  C2, as the code has it. For a work item configured with both URLs whose job is accepted
  and whose every status query finds it still running, \<open>process_folder\<close> sleeps and polls
  exactly along the schedule 10, 5, 10, 5, 10, 20, 30, 30, 60 (nine polls), records the
  status \<open>timeout\<close>, and the recorded duration is the time of the job-creation request plus
  180 seconds plus the time of the nine status queries: at least 180 seconds, and at most
  180 seconds plus the time spent in the job-creation request and in the status queries.
\<close>

theorem never_done_times_out:
  assumes "input_json folder_name = Some item"
      and "item ''human_id'' = None" "item ''human_url'' = Some hu"
      and "item ''garment_id'' = None" "item ''garment_url'' = Some gu"
      and "item ''garment_type'' = Some gt"
      and "tryon_post w = Answer t0 r0" "status_code r0 = 200" "json_of r0 = Some j0"
          "dict_get j0 ''tryon_id'' = Inr tid"
      and "\<forall>k. still_running (status_post w k)"
      and "0 \<le> t0" "\<forall>k. 0 \<le> elapsed (status_post w k)"
  shows "\<exists>st' r. process_folder input_json w folder_name st = Returned () st'
       \<and> requests (results_summary st') = requests (results_summary st) @ [r]
       \<and> status r = ''timeout''
       \<and> trace st' = trace st @
           [HttpPost url,
            Sleep 10, HttpPost fetch_url, Sleep 5, HttpPost fetch_url, Sleep 10, HttpPost fetch_url,
            Sleep 5, HttpPost fetch_url, Sleep 10, HttpPost fetch_url, Sleep 20, HttpPost fetch_url,
            Sleep 30, HttpPost fetch_url, Sleep 30, HttpPost fetch_url, Sleep 60, HttpPost fetch_url]
       \<and> duration r = t0 + 180 + (\<Sum>k<9. elapsed (status_post w k))
       \<and> 180 \<le> duration r
       \<and> duration r \<le> 180 + (t0 + (\<Sum>k<9. elapsed (status_post w k)))"
proof -
  define data where "data = [''human_url'' \<mapsto> hu @ ''?v='' @ str_int (random_number w),
    ''garment_url'' \<mapsto> gu @ ''?v='' @ str_int (random_number w),
    ''garment_type'' \<mapsto> gt, ''mode'' \<mapsto> ''fast'']"
  have bd: "build_data item (random_number w) = Inr (data, JNull, JNull)"
    unfolding data_def by (rule build_data_urls[OF assms(2-6)])
  have u1: "data ''garment_url'' = Some (gu @ ''?v='' @ str_int (random_number w))"
    by (simp add: data_def)
  have u2: "data ''human_url'' = Some (hu @ ''?v='' @ str_int (random_number w))"
    by (simp add: data_def)
  define r where "r = \<lparr>folder = folder_name, status = ''timeout'',
      duration = t0 + 180 + (\<Sum>k<9. elapsed (status_post w k)),
      note_text = ''TIMEOUT waiting for tryon to complete'', tryon_id = tid,
      garment_url = gu @ ''?v='' @ str_int (random_number w),
      human_url = hu @ ''?v='' @ str_int (random_number w),
      garment_id = JNull, human_id = JNull\<rparr>"
  define st' where "st' = append_and_persist r
      (st\<lparr>now := now st + t0 + 180 + (\<Sum>k<9. elapsed (status_post w k)),
          trace := trace st @ HttpPost url
             # concat (map (\<lambda>wait. [Sleep wait, HttpPost fetch_url]) wait_times)\<rparr>)"
  have pf: "process_folder input_json w folder_name st = Returned () st'"
    unfolding st'_def r_def
    by (rule process_folder_pending[where input_json = input_json and folder_name = folder_name,
          OF assms(1) bd u1 u2 assms(7-11)])
  have nonneg: "0 \<le> (\<Sum>k<9. elapsed (status_post w k))"
    using assms(13) by (intro sum_nonneg) simp
  have reqs: "requests (results_summary st') = requests (results_summary st) @ [r]"
    by (simp add: st'_def requests_append_and_persist)
  have tr: "trace st' = trace st @
           [HttpPost url,
            Sleep 10, HttpPost fetch_url, Sleep 5, HttpPost fetch_url, Sleep 10, HttpPost fetch_url,
            Sleep 5, HttpPost fetch_url, Sleep 10, HttpPost fetch_url, Sleep 20, HttpPost fetch_url,
            Sleep 30, HttpPost fetch_url, Sleep 30, HttpPost fetch_url, Sleep 60, HttpPost fetch_url]"
    by (simp add: st'_def trace_append_and_persist wait_times_def)
  have d: "duration r = t0 + 180 + (\<Sum>k<9. elapsed (status_post w k))" "status r = ''timeout''"
    by (simp_all add: r_def)
  have bounds: "180 \<le> duration r" "duration r \<le> 180 + (t0 + (\<Sum>k<9. elapsed (status_post w k)))"
    using nonneg assms(12) by (simp_all only: d)
  show ?thesis
    using pf reqs tr d bounds by blast
qed

lemma world_never_done_running: "still_running (status_post world_never_done k)"
  by (simp add: world_never_done_def world_offline_def still_running_def json_response_def)

lemma world_never_done_elapsed: "elapsed (status_post world_never_done k) = 0"
  by (simp add: world_never_done_def world_offline_def)

lemma world_never_done_post:
  "tryon_post world_never_done = Answer 5 (json_response 200 (JObj [(''tryon_id'', JStr ''T1'')]))"
  "random_number world_never_done = 42"
  by (simp_all add: world_never_done_def world_offline_def)

lemma str_int_42: "str_int 42 = ''42''"
  by (simp add: str_int_def str_nat.simps)

theorem never_done_times_out_witness:
  "\<exists>st' r. process_folder example_input_json world_never_done ''h40__g20'' initial_state
         = Returned () st'
       \<and> requests (results_summary st') = [r]
       \<and> status r = ''timeout''
       \<and> duration r = 185"
proof -
  let ?item = "[''human_url'' \<mapsto> ''https://example.org/h40__g20/human.jpg'',
         ''garment_url'' \<mapsto> ''https://example.org/h40__g20/garment.jpg'',
         ''garment_type'' \<mapsto> ''full'', ''mode'' \<mapsto> ''fast'']"
  have h1: "?item ''human_id'' = None" by simp
  have h2: "?item ''human_url'' = Some ''https://example.org/h40__g20/human.jpg''" by simp
  have h3: "?item ''garment_id'' = None" by simp
  have h4: "?item ''garment_url'' = Some ''https://example.org/h40__g20/garment.jpg''" by simp
  have h5: "?item ''garment_type'' = Some ''full''" by simp
  have h6: "status_code (json_response 200 (JObj [(''tryon_id'', JStr ''T1'')])) = 200"
    by (simp add: json_response_def)
  have h7: "json_of (json_response 200 (JObj [(''tryon_id'', JStr ''T1'')]))
      = Some (JObj [(''tryon_id'', JStr ''T1'')])"
    by (simp add: json_response_def)
  have h8: "dict_get (JObj [(''tryon_id'', JStr ''T1'')]) ''tryon_id'' = Inr (JStr ''T1'')"
    by simp
  have h9: "\<forall>k. still_running (status_post world_never_done k)"
    by (simp add: world_never_done_running)
  have h10: "(0::real) \<le> 5" by simp
  have h11: "\<forall>k. 0 \<le> elapsed (status_post world_never_done k)"
    by (simp add: world_never_done_elapsed)
  from never_done_times_out[where input_json = example_input_json and folder_name = "''h40__g20''"
      and st = initial_state,
      OF example_item_h40 h1 h2 h3 h4 h5 world_never_done_post(1) h6 h7 h8 h9 h10 h11]
  show ?thesis
    by (auto simp add: world_never_done_elapsed initial_state_def initial_summary_def)
qed

text \<open>
  C2 as stated fails: the duration is measured from the start of \<open>process_folder\<close>, before
  the job is created. With a job-creation request of 5 seconds and status queries that
  take no time, the recorded duration is 185 seconds, above 180 plus the time of the
  status queries.
\<close>

theorem never_done_duration_counterexample:
  "map status (requests (results_summary (final_state
       (process_folder example_input_json world_never_done ''h40__g20'' initial_state))))
     = [''timeout'']
   \<and> map duration (requests (results_summary (final_state
       (process_folder example_input_json world_never_done ''h40__g20'' initial_state))))
     = [185]
   \<and> sum_list (map (elapsed \<circ> status_post world_never_done) [0..<9]) = 0
   \<and> \<not> ((185::real) \<le> 180 + 0)"
proof -
  let ?item = "[''human_url'' \<mapsto> ''https://example.org/h40__g20/human.jpg'',
         ''garment_url'' \<mapsto> ''https://example.org/h40__g20/garment.jpg'',
         ''garment_type'' \<mapsto> ''full'', ''mode'' \<mapsto> ''fast'']"
  have bd: "build_data ?item (random_number world_never_done)
      = Inr ([''human_url'' \<mapsto> ''https://example.org/h40__g20/human.jpg'' @ ''?v='' @ str_int (random_number world_never_done),
               ''garment_url'' \<mapsto> ''https://example.org/h40__g20/garment.jpg'' @ ''?v='' @ str_int (random_number world_never_done),
               ''garment_type'' \<mapsto> ''full'', ''mode'' \<mapsto> ''fast''], JNull, JNull)"
    by (rule build_data_urls) simp_all
  have run: "\<forall>k. still_running (status_post world_never_done k)"
    by (simp add: world_never_done_running)
  have u1: "[''human_url'' \<mapsto> ''https://example.org/h40__g20/human.jpg'' @ ''?v='' @ str_int (random_number world_never_done),
               ''garment_url'' \<mapsto> ''https://example.org/h40__g20/garment.jpg'' @ ''?v='' @ str_int (random_number world_never_done),
               ''garment_type'' \<mapsto> ''full'', ''mode'' \<mapsto> ''fast''] ''garment_url''
      = Some (''https://example.org/h40__g20/garment.jpg'' @ ''?v='' @ str_int (random_number world_never_done))"
    by simp
  have u2: "[''human_url'' \<mapsto> ''https://example.org/h40__g20/human.jpg'' @ ''?v='' @ str_int (random_number world_never_done),
               ''garment_url'' \<mapsto> ''https://example.org/h40__g20/garment.jpg'' @ ''?v='' @ str_int (random_number world_never_done),
               ''garment_type'' \<mapsto> ''full'', ''mode'' \<mapsto> ''fast''] ''human_url''
      = Some (''https://example.org/h40__g20/human.jpg'' @ ''?v='' @ str_int (random_number world_never_done))"
    by simp
  have p1: "status_code (json_response 200 (JObj [(''tryon_id'', JStr ''T1'')])) = 200"
    by (simp add: json_response_def)
  have p2: "json_of (json_response 200 (JObj [(''tryon_id'', JStr ''T1'')]))
      = Some (JObj [(''tryon_id'', JStr ''T1'')])"
    by (simp add: json_response_def)
  have p3: "dict_get (JObj [(''tryon_id'', JStr ''T1'')]) ''tryon_id'' = Inr (JStr ''T1'')"
    by simp
  note pf = process_folder_pending[where input_json = example_input_json
          and folder_name = "''h40__g20''" and st = initial_state,
          OF example_item_h40 bd u1 u2 world_never_done_post(1) p1 p2 p3 run]
  have s: "sum_list (map (elapsed \<circ> status_post world_never_done) [0..<9]) = 0"
    by (simp add: comp_def world_never_done_elapsed)
  show ?thesis
    by (simp only: pf s final_state.simps requests_append_and_persist)
       (simp add: initial_state_def initial_summary_def world_never_done_elapsed)
qed

subsection \<open>The decision of one poll\<close>

lemma quiet_refl: "quiet st st"
  by (simp add: quiet_def)

lemma quiet_trans: "quiet st st1 \<Longrightarrow> quiet st1 st2 \<Longrightarrow> quiet st st2"
  by (simp add: quiet_def)

lemma quiet_Returned: "quiet st (final_state (Returned x st))"
  by (simp add: quiet_refl)

lemma quiet_and_then:
  assumes "quiet st (final_state m)"
      and "\<And>x st1. m = Returned x st1 \<Longrightarrow> quiet st1 (final_state (f x st1))"
  shows "quiet st (final_state (and_then m f))"
proof (cases m)
  case (Returned x st1)
  then show ?thesis
    using assms(1) assms(2)[OF Returned] by (auto simp add: and_then_def intro: quiet_trans)
next
  case (Raised e st1)
  then show ?thesis using assms(1) by (simp add: and_then_def)
qed

lemma quiet_of_sum: "quiet st (final_state (of_sum r st))"
  by (cases r) (simp_all add: of_sum_def quiet_refl)

lemma quiet_makedirs: "quiet st (final_state (makedirs w p st))"
  by (simp add: makedirs_def quiet_refl split: option.splits)

lemma quiet_download_image: "quiet st (final_state (download_image w src p st))"
  by (simp add: download_image_def tick_def quiet_def is_poll_def Let_def
      split: http_result.splits option.splits)

lemma quiet_download_result: "quiet st (final_state (download_result w u p st))"
  by (cases u) (simp_all add: download_result_def quiet_download_image quiet_refl)

lemma quiet_download_input: "quiet st (final_state (download_input w item key p st))"
  by (simp add: download_input_def quiet_download_image quiet_refl split: option.splits)

lemma quiet_stack: "quiet st (final_state (stack_three_images_and_save w a b c p st))"
  by (simp add: stack_three_images_and_save_def quiet_def split: option.splits)

lemma save_result_quiet: "quiet st (final_state (save_result w item folder_name status_json st))"
  unfolding save_result_def Let_def
  by (intro quiet_and_then quiet_of_sum quiet_makedirs quiet_download_result
      quiet_download_input quiet_stack quiet_Returned)


text \<open>One iteration of the loop, with its sleep and its status query written out.\<close>

lemma poll_loop_Cons:
  "poll_loop w item folder_name (wait # rest) v st =
     (case status_post w (poll_count v) of
        Fault t e \<Rightarrow> Raised e (tick t (HttpPost fetch_url) (tick (real wait) (Sleep wait) st))
      | Answer t r \<Rightarrow>
          if status_code r = 200 then
            (case json_of r of
               None \<Rightarrow> Raised JSONDecodeError (tick t (HttpPost fetch_url) (tick (real wait) (Sleep wait) st))
             | Some sj \<Rightarrow>
                 (case subscript sj ''message'' of
                    Inl e \<Rightarrow> Raised e (tick t (HttpPost fetch_url) (tick (real wait) (Sleep wait) st))
                  | Inr m \<Rightarrow>
                      if m \<noteq> JStr ''success'' then
                        Returned (v\<lparr>poll_count := poll_count v + 1,
                                    cur_note := ''API message: '' @ str_json w m,
                                    cur_status := ''fail''\<rparr>)
                          (tick t (HttpPost fetch_url) (tick (real wait) (Sleep wait) st))
                      else
                        (case subscript sj ''status'' of
                           Inl e \<Rightarrow> Raised e (tick t (HttpPost fetch_url) (tick (real wait) (Sleep wait) st))
                         | Inr s \<Rightarrow>
                             if s = JStr ''done'' then
                               (case save_result w item folder_name sj
                                       (tick t (HttpPost fetch_url) (tick (real wait) (Sleep wait) st)) of
                                  Returned ids st' \<Rightarrow>
                                    Returned (v\<lparr>poll_count := poll_count v + 1,
                                                cur_status := ''success'', cur_note := [],
                                                cur_garment_id := fst ids,
                                                cur_human_id := snd ids\<rparr>) st'
                                | Raised e st' \<Rightarrow>
                                    Returned (v\<lparr>poll_count := poll_count v + 1,
                                                cur_note := ''Exception during save: '' @ str_exn w e,
                                                cur_status := ''fail''\<rparr>) st')
                             else poll_loop w item folder_name rest
                                    (v\<lparr>poll_count := poll_count v + 1\<rparr>)
                                    (tick t (HttpPost fetch_url) (tick (real wait) (Sleep wait) st)))))
          else
            Returned (v\<lparr>poll_count := poll_count v + 1,
                        cur_note := ''Status poll failed: '' @ str_int (status_code r)
                                     @ '', '' @ text_of r,
                        cur_status := ''fail''\<rparr>)
              (tick t (HttpPost fetch_url) (tick (real wait) (Sleep wait) st)))"
  by (simp add: Let_def split: http_result.splits option.splits sum.splits outcome.splits)

text \<open>
  A status query that raises, an HTTP 200 answer whose body is not JSON, and an HTTP 200
  answer without \<open>message\<close>, or with message \<open>'success'\<close> and without \<open>status\<close>, are outside
  any \<open>try\<close>: the exception leaves the loop, and with it \<open>process_folder\<close>.
\<close>

lemma poll_malformed_raises:
  "(status_post w (poll_count v) = Fault t e \<longrightarrow>
      poll_loop w item folder_name (wait # rest) v st
        = Raised e (tick t (HttpPost fetch_url) (tick (real wait) (Sleep wait) st)))
   \<and> (status_post w (poll_count v) = Answer t r \<and> status_code r = 200 \<and> json_of r = None \<longrightarrow>
      poll_loop w item folder_name (wait # rest) v st
        = Raised JSONDecodeError (tick t (HttpPost fetch_url) (tick (real wait) (Sleep wait) st)))
   \<and> (status_post w (poll_count v) = Answer t r \<and> status_code r = 200 \<and> json_of r = Some sj
        \<and> subscript sj ''message'' = Inl e \<longrightarrow>
      poll_loop w item folder_name (wait # rest) v st
        = Raised e (tick t (HttpPost fetch_url) (tick (real wait) (Sleep wait) st)))
   \<and> (status_post w (poll_count v) = Answer t r \<and> status_code r = 200 \<and> json_of r = Some sj
        \<and> subscript sj ''message'' = Inr (JStr ''success'') \<and> subscript sj ''status'' = Inl e \<longrightarrow>
      poll_loop w item folder_name (wait # rest) v st
        = Raised e (tick t (HttpPost fetch_url) (tick (real wait) (Sleep wait) st)))"
  by (simp add: poll_loop_Cons del: poll_loop.simps(2))



lemmas eval_defs =
  world_done_def world_offline_def json_response_def image_response_def
  save_result_def and_then_def of_sum_def makedirs_def download_result_def download_input_def
  download_image_def Image_open_def stack_three_images_and_save_def out_path_def path_join_def
  dirname_def output_dir_def or_null_def tick_def Let_def



subsection \<open>Work items with direct identifiers\<close>

text \<open>
  A job that the server reports done at the second status query, for an item configured
  with URLs: one record with status \<open>success\<close>, the identifiers the server returned, and a
  duration of 21 seconds (the submission, two sleeps of 10 and 5 seconds, two status
  queries and three downloads of one second each).
\<close>

lemma completed_job_recorded:
  "map status (requests (results_summary (final_state
      (process_folder example_input_json world_done ''h40__g20'' initial_state)))) = [''success'']
   \<and> map duration (requests (results_summary (final_state
      (process_folder example_input_json world_done ''h40__g20'' initial_state)))) = [21]
   \<and> map garment_id (requests (results_summary (final_state
      (process_folder example_input_json world_done ''h40__g20'' initial_state)))) = [JStr ''G1'']"
  by (simp add: process_folder_def example_input_json_def build_data_def wait_times_def
      eval_defs append_and_persist_def initial_state_def initial_summary_def)

lemma results_summary_tick [simp]: "results_summary (tick t ev st) = results_summary st"
  by (simp add: tick_def)

lemma poll_loop_summary:
  "results_summary (final_state (poll_loop w item folder_name ws v st)) = results_summary st"
proof (induction ws arbitrary: v st)
  case Nil
  then show ?case by simp
next
  case (Cons wait rest)
  have keep: "results_summary (final_state (save_result w item folder_name sj st1))
      = results_summary st1" for sj st1
    using save_result_quiet[of st1 w item folder_name sj] by (simp add: quiet_def)
  show ?case
    by (simp add: poll_loop_Cons Cons.IH keep del: poll_loop.simps(2)
        split: http_result.splits option.splits sum.splits outcome.splits)
       (metis keep final_state.simps results_summary_tick)
qed

lemma build_data_ids:
  assumes "build_data item rnd = Inr (data, g, h)"
      and "item ''garment_id'' \<noteq> None \<or> item ''human_id'' \<noteq> None"
  shows "data ''garment_url'' = None \<or> data ''human_url'' = None"
  using assms by (auto simp add: build_data_def split: option.splits)


lemma process_folder_ids_raises:
  assumes "input_json folder_name = Some item"
      and "item ''garment_id'' \<noteq> None \<or> item ''human_id'' \<noteq> None"
      and "tryon_post w = Answer t r" "status_code r = 200" "json_of r = Some j"
          "dict_get j ''tryon_id'' = Inr tid"
  shows "\<exists>e st'. process_folder input_json w folder_name st = Raised e st'
       \<and> requests (results_summary st') = requests (results_summary st)"
proof (cases "build_data item (random_number w)")
  case (Inl e)
  then show ?thesis using assms(1) by (simp add: process_folder_def)
next
  case (Inr triple)
  obtain data g h where triple: "triple = (data, g, h)" by (cases triple) auto
  have missing: "data ''garment_url'' = None \<or> data ''human_url'' = None"
    using build_data_ids[OF Inr[unfolded triple] assms(2)] .
  let ?st1 = "tick t (HttpPost url) st"
  let ?v0 = "\<lparr>cur_status = ''fail'', cur_note = [], cur_garment_id = g, cur_human_id = h,
      poll_count = 0\<rparr>"
  have keep: "results_summary (final_state (poll_loop w item folder_name wait_times ?v0 ?st1))
      = results_summary st"
    by (simp add: poll_loop_summary)
  show ?thesis
  proof (cases "poll_loop w item folder_name wait_times ?v0 ?st1")
    case (Raised e st')
    then show ?thesis
      using assms Inr triple keep by (simp add: process_folder_def Let_def)
  next
    case (Returned v st')
    then show ?thesis
      using assms Inr triple keep missing
      by (auto simp add: process_folder_def Let_def split: option.splits)
  qed
qed

text \<open>
  C1, where the code departs from it. For a work item configured with a direct identifier
  (\<open>garment_id\<close> or \<open>human_id\<close>) whose job is accepted, \<open>process_folder\<close> does not return:
  an exception leaves it, no record of the item has been appended, and the worker thread ends
  there, so the rest of its chunk gets no record either. (Whatever the polling loop
  gives, the last block subscripts \<open>data['garment_url']\<close> and \<open>data['human_url']\<close>, which such
  an item lacks; the two early exits use \<open>data.get(..., '')\<close> instead.)
\<close>

theorem direct_identifiers_raise:
  assumes "input_json folder_name = Some item"
      and "item ''garment_id'' \<noteq> None \<or> item ''human_id'' \<noteq> None"
      and "tryon_post (world folder_name) = Answer t r" "status_code r = 200"
          "json_of r = Some j" "dict_get j ''tryon_id'' = Inr tid"
  shows "(\<exists>e st'. process_folder input_json (world folder_name) folder_name st = Raised e st'
           \<and> requests (results_summary st') = requests (results_summary st))
       \<and> (\<exists>e st'. worker input_json world (folder_name # chunk) st = Raised e st'
           \<and> requests (results_summary st') = requests (results_summary st))"
proof -
  obtain e st' where pf: "process_folder input_json (world folder_name) folder_name st = Raised e st'"
      "requests (results_summary st') = requests (results_summary st)"
    using process_folder_ids_raises[where input_json = input_json and folder_name = folder_name
        and st = st, OF assms] by blast
  then show ?thesis by simp
qed

lemma example_item_h20:
  "example_input_json ''h20__g4''
     = Some [''human_id'' \<mapsto> ''096ee950-H727'', ''garment_id'' \<mapsto> ''cf17d39b-G327'',
         ''garment_type'' \<mapsto> ''full'', ''mode'' \<mapsto> ''fast'']"
  by (simp add: example_input_json_def)

theorem direct_identifiers_raise_witness:
  "(\<exists>e st'. process_folder example_input_json world_done ''h20__g4'' initial_state = Raised e st'
       \<and> requests (results_summary st') = [])
   \<and> (\<exists>e st'. worker example_input_json (\<lambda>f. world_done) [''h20__g4'', ''h40__g20'']
         initial_state = Raised e st'
       \<and> requests (results_summary st') = [])"
proof -
  have ids: "[''human_id'' \<mapsto> ''096ee950-H727'', ''garment_id'' \<mapsto> ''cf17d39b-G327'',
         ''garment_type'' \<mapsto> ''full'', ''mode'' \<mapsto> ''fast''] ''garment_id'' \<noteq> None
      \<or> [''human_id'' \<mapsto> ''096ee950-H727'', ''garment_id'' \<mapsto> ''cf17d39b-G327'',
         ''garment_type'' \<mapsto> ''full'', ''mode'' \<mapsto> ''fast''] ''human_id'' \<noteq> None"
    by simp
  have post: "tryon_post world_done = Answer 1 (json_response 200 (JObj [(''tryon_id'', JStr ''T1'')]))"
    by (simp add: world_done_def world_offline_def)
  have p1: "status_code (json_response 200 (JObj [(''tryon_id'', JStr ''T1'')])) = 200"
    by (simp add: json_response_def)
  have p2: "json_of (json_response 200 (JObj [(''tryon_id'', JStr ''T1'')]))
      = Some (JObj [(''tryon_id'', JStr ''T1'')])"
    by (simp add: json_response_def)
  have p3: "dict_get (JObj [(''tryon_id'', JStr ''T1'')]) ''tryon_id'' = Inr (JStr ''T1'')"
    by simp
  have empty: "requests (results_summary initial_state) = []"
    by (simp add: initial_state_def initial_summary_def)
  from direct_identifiers_raise[where input_json = example_input_json
      and folder_name = "''h20__g4''" and world = "\<lambda>f. world_done" and st = initial_state
      and chunk = "[''h40__g20'']", OF example_item_h20 ids post p1 p2 p3]
  show ?thesis unfolding empty .
qed

text \<open>
  The same server and the item with direct identifiers: the job completes, the save step
  fails on the garment image that was never downloaded, and the last block raises
  \<open>KeyError('garment_url')\<close> with nothing appended.
\<close>

lemma direct_identifiers_key_error:
  "process_folder example_input_json world_done ''h20__g4'' initial_state
     = Raised (KeyError ''garment_url'')
         (final_state (process_folder example_input_json world_done ''h20__g4'' initial_state))
   \<and> requests (results_summary (final_state
         (process_folder example_input_json world_done ''h20__g4'' initial_state))) = []"
  by (simp add: process_folder_def example_input_json_def build_data_def wait_times_def
      eval_defs append_and_persist_def initial_state_def initial_summary_def)

subsection \<open>The manifest on disk\<close>

lemma file_append_and_persist:
  "files (append_and_persist r st) results_json_path
     = Some (JsonFile (summary_json (results_summary (append_and_persist r st))))"
  by (simp add: append_and_persist_def Let_def)

lemma average_append_and_persist:
  "average_duration (results_summary (append_and_persist r st))
     = average_duration (results_summary st)"
  by (simp add: append_and_persist_def Let_def)

lemma fold_append_requests:
  "requests (results_summary (fold append_and_persist rs st)) = requests (results_summary st) @ rs"
  by (induction rs arbitrary: st) (simp_all add: requests_append_and_persist)

lemma fold_append_average:
  "average_duration (results_summary (fold append_and_persist rs st))
     = average_duration (results_summary st)"
  by (induction rs arbitrary: st) (simp_all add: average_append_and_persist)

lemma fold_append_file:
  "rs \<noteq> [] \<Longrightarrow>
   files (fold append_and_persist rs st) results_json_path
     = Some (JsonFile (summary_json (results_summary (fold append_and_persist rs st))))"
proof (induction rs arbitrary: st rule: rev_induct)
  case Nil
  then show ?case by simp
next
  case (snoc r rs)
  show ?case by (simp add: file_append_and_persist)
qed

text \<open>
  C6. At process start the manifest is empty, its average is \<open>None\<close> and nothing is on disk.
  Every append-and-persist leaves in \<open>results.json\<close> one JSON document whose \<open>requests\<close>
  array holds the records appended so far, in append order; so after any non-empty
  sequence of appends from the start, the file holds exactly those records. The final
  flush keeps the records, sets \<open>average_duration\<close> to the sum of the durations of the
  records with status \<open>success\<close> divided by their number, or to \<open>None\<close> when there is none,
  and writes the manifest again.
\<close>

theorem manifest_persisted:
  "requests (results_summary initial_state) = []
   \<and> average_duration (results_summary initial_state) = None
   \<and> files initial_state results_json_path = None
   \<and> requests (results_summary (append_and_persist r st)) = requests (results_summary st) @ [r]
   \<and> files (append_and_persist r st) results_json_path
       = Some (JsonFile (JObj
           [(''requests'', JArr (map request_json (requests (results_summary st) @ [r]))),
            (''average_duration'',
               (case average_duration (results_summary st) of None \<Rightarrow> JNull | Some a \<Rightarrow> JNum a))]))
   \<and> requests (results_summary (fold append_and_persist rs initial_state)) = rs
   \<and> (rs \<noteq> [] \<longrightarrow>
        files (fold append_and_persist rs initial_state) results_json_path
          = Some (JsonFile (JObj
              [(''requests'', JArr (map request_json rs)), (''average_duration'', JNull)])))
   \<and> requests (results_summary (final_flush st)) = requests (results_summary st)
   \<and> average_duration (results_summary (final_flush st))
       = (if filter (\<lambda>r. status r = ''success'') (requests (results_summary st)) = [] then None
          else Some (sum_list (map duration
                       (filter (\<lambda>r. status r = ''success'') (requests (results_summary st))))
                     / real (length (filter (\<lambda>r. status r = ''success'')
                                       (requests (results_summary st))))))
   \<and> files (final_flush st) results_json_path
       = Some (JsonFile (summary_json (results_summary (final_flush st))))"
proof -
  have i: "requests (results_summary initial_state) = []"
      "average_duration (results_summary initial_state) = None"
      "files initial_state results_json_path = None"
    by (simp_all add: initial_state_def initial_summary_def)
  have a: "files (append_and_persist r st) results_json_path
       = Some (JsonFile (JObj
           [(''requests'', JArr (map request_json (requests (results_summary st) @ [r]))),
            (''average_duration'',
               (case average_duration (results_summary st) of None \<Rightarrow> JNull | Some a \<Rightarrow> JNum a))]))"
    by (simp add: file_append_and_persist summary_json_def requests_append_and_persist
        average_append_and_persist)
  have f1: "requests (results_summary (fold append_and_persist rs initial_state)) = rs"
    by (simp add: fold_append_requests i)
  have f2: "rs \<noteq> [] \<longrightarrow>
        files (fold append_and_persist rs initial_state) results_json_path
          = Some (JsonFile (JObj
              [(''requests'', JArr (map request_json rs)), (''average_duration'', JNull)]))"
    by (simp add: fold_append_file summary_json_def f1 fold_append_average i)
  have z1: "requests (results_summary (final_flush st)) = requests (results_summary st)"
    by (simp add: final_flush_def Let_def)
  have z2: "average_duration (results_summary (final_flush st))
       = (if filter (\<lambda>r. status r = ''success'') (requests (results_summary st)) = [] then None
          else Some (sum_list (map duration
                       (filter (\<lambda>r. status r = ''success'') (requests (results_summary st))))
                     / real (length (filter (\<lambda>r. status r = ''success'')
                                       (requests (results_summary st))))))"
    by (simp add: final_flush_def Let_def)
  have z3: "files (final_flush st) results_json_path
       = Some (JsonFile (summary_json (results_summary (final_flush st))))"
    by (simp add: final_flush_def Let_def)
  show ?thesis
    using i requests_append_and_persist[of r st] a f1 f2 z1 z2 z3 by (intro conjI)
qed

theorem manifest_persisted_witness:
  "files (fold append_and_persist [example_success, example_timeout] initial_state)
       results_json_path
     = Some (JsonFile (JObj
         [(''requests'', JArr [request_json example_success, request_json example_timeout]),
          (''average_duration'', JNull)]))
   \<and> average_duration (results_summary (final_flush
         (fold append_and_persist [example_success, example_timeout] initial_state))) = Some 30
   \<and> average_duration (results_summary (final_flush
         (fold append_and_persist [example_timeout] initial_state))) = None"
proof -
  note t = manifest_persisted[where rs = "[example_success, example_timeout]"
      and st = "fold append_and_persist [example_success, example_timeout] initial_state"]
  note u = manifest_persisted[where rs = "[example_timeout]"
      and st = "fold append_and_persist [example_timeout] initial_state"]
  have ne: "[example_success, example_timeout] \<noteq> []" by simp
  have a: "files (fold append_and_persist [example_success, example_timeout] initial_state)
       results_json_path
     = Some (JsonFile (JObj
         [(''requests'', JArr [request_json example_success, request_json example_timeout]),
          (''average_duration'', JNull)]))"
    using t[THEN conjunct2, THEN conjunct2, THEN conjunct2, THEN conjunct2, THEN conjunct2,
        THEN conjunct2, THEN conjunct1, THEN mp, OF ne]
    by (simp del: fold_simps)
  have r1: "requests (results_summary
      (fold append_and_persist [example_success, example_timeout] initial_state))
      = [example_success, example_timeout]"
    using t[THEN conjunct2, THEN conjunct2, THEN conjunct2, THEN conjunct2, THEN conjunct2,
        THEN conjunct1] .
  have r2: "requests (results_summary (fold append_and_persist [example_timeout] initial_state))
      = [example_timeout]"
    using u[THEN conjunct2, THEN conjunct2, THEN conjunct2, THEN conjunct2, THEN conjunct2,
        THEN conjunct1] .
  have b: "average_duration (results_summary (final_flush
         (fold append_and_persist [example_success, example_timeout] initial_state))) = Some 30"
    using t[THEN conjunct2, THEN conjunct2, THEN conjunct2, THEN conjunct2, THEN conjunct2,
        THEN conjunct2, THEN conjunct2, THEN conjunct2, THEN conjunct1]
    unfolding r1 by (simp add: example_success_def example_timeout_def)
  have c: "average_duration (results_summary (final_flush
         (fold append_and_persist [example_timeout] initial_state))) = None"
    using u[THEN conjunct2, THEN conjunct2, THEN conjunct2, THEN conjunct2, THEN conjunct2,
        THEN conjunct2, THEN conjunct2, THEN conjunct2, THEN conjunct1]
    unfolding r2 by (simp add: example_success_def example_timeout_def)
  show ?thesis using a b c by (intro conjI)
qed

section \<open>Properties of the DALL-E runner\<close>

text \<open>
  A response with a status from 400 to 599 is false as a truth value, and
  \<open>raise_for_status\<close> raises for no other, so the handler never sees a status code of 429:
  for every \<open>HTTPError\<close> the local \<open>code\<close> is \<open>"?"\<close> or a status outside 400 to 599.
\<close>

lemma error_code_never_429: "error_code resp \<noteq> Code 429"
  by (cases resp) (auto simp add: error_code_def response_bool_def raise_for_status_def)

lemma gen_handler_returns: "gen_handler fname e = Some (fname, None)"
  by (cases e) (simp_all add: gen_handler_def error_code_never_429)

lemma gen_one_single_attempt:
  "gen_one w item k st =
     (case item ''filename'' of
        None \<Rightarrow> Some (Raised (KeyError ''filename'') st)
      | Some fname \<Rightarrow>
          if (case files st (gen_out_path fname) of None \<Rightarrow> False | Some c \<Rightarrow> 10000 < st_size w c)
          then Some (Returned (fname, Some (gen_out_path fname)) st)
          else
            (case gen_try w item fname k st of
               Returned res st' \<Rightarrow> Some (Returned res st')
             | Raised e st' \<Rightarrow> Some (Returned (fname, None) st')))"
  by (subst gen_one.simps) (simp add: gen_handler_returns split: option.splits outcome.splits)

text \<open>
  C9, where the code departs from it. When the generation request is answered with HTTP
  429, \<open>gen_one\<close> returns \<open>(fname, None)\<close> after that one request: it does not sleep and
  does not call itself again.
\<close>

theorem rate_limited_not_retried:
  "gen_one world_rate_limited example_item 0 initial_state
     = Some (Returned (''kurta_01'', None) (tick 1 (HttpPost openai_url) initial_state))
   \<and> trace (tick 1 (HttpPost openai_url) initial_state) = [HttpPost openai_url]"
  by (simp add: gen_one_single_attempt example_item_def world_rate_limited_def gen_try_def
      plain_response_def raise_for_status_def initial_state_def tick_def)

end
